theory Spec2Isabelle
  imports Complex_Main "HOL-Library.Log_Nat"
begin

section \<open>Undawn: the combat and wave engine\<close>

text \<open>
  A shallow embedding of the engine classes \<^verbatim>\<open>Unit\<close>, \<^verbatim>\<open>Minion\<close>, \<^verbatim>\<open>Hero\<close>,
  \<^verbatim>\<open>Tile\<close>, \<^verbatim>\<open>Lane\<close> and \<^verbatim>\<open>Game\<close>. Every method becomes a function that takes
  the state it reads and returns the state it leaves.

  \<^item> Objects that are shared by reference (a defender is held by its tile and by the
    lane's \<^verbatim>\<open>minions\<close> array, an attacker by the lane's \<^verbatim>\<open>heroes\<close> array) live in
    two stores of the game state; arrays and tiles hold references into them, and
    \<^verbatim>\<open>===\<close> on objects is equality of references.
  \<^item> A JavaScript number is modelled by a rational; arithmetic on quantities that stay
    continuous (Daen, positions, timers) is exact. Where the source multiplies by a
    decimal literal that is no binary fraction and rounds the product to an integer
    (\<^verbatim>\<open>Math.ceil\<close>), the binary64 rounding of every step is written out with
    \<open>fl\<close>, because it decides the integer. Indices, wave numbers and hero counts
    are integers.
  \<^item> An uncaught \<^verbatim>\<open>TypeError\<close> (a property read on \<^verbatim>\<open>undefined\<close>, a call of
    something that is no function) is a value of the completion type; the state reached
    when it is thrown is kept beside it.
  \<^item> \<^verbatim>\<open>Math.random\<close> reads the next element of a sequence held in the state, so a
    draw is visible as an advance of \<open>randomCalls\<close>. \<^verbatim>\<open>setTimeout\<close> appends to a
    queue of pending callbacks. Floating texts handed to the renderer are appended to a
    log. The DOM, the canvas and the console are left out.
\<close>

subsection \<open>Numbers\<close>

text \<open>
  Rounding a rational to the nearest binary64 value, ties to even, for values in the
  normal range: \<open>binade x\<close> is the exponent \<open>e\<close> with \<open>2^e \<le> |x| < 2^(e+1)\<close>, and the
  significand keeps 53 bits.
\<close>

definition binade :: "rat \<Rightarrow> int" where
  "binade x =
     (let (a, b) = quotient_of \<bar>x\<bar>;
          e0 = bitlen a - bitlen b
      in if 2 powi e0 \<le> \<bar>x\<bar> then e0 else e0 - 1)"

definition round_even :: "rat \<Rightarrow> int" where
  "round_even q =
     (let f = \<lfloor>q\<rfloor>; r = q - of_int f
      in if r < 1 / 2 then f
         else if 1 / 2 < r then f + 1
         else if even f then f else f + 1)"

definition fl :: "rat \<Rightarrow> rat" where
  "fl x =
     (if x = 0 then 0
      else let e = binade x
           in sgn x * of_int (round_even (\<bar>x\<bar> * 2 powi (52 - e))) * 2 powi (e - 52))"

text \<open>The remainder operator \<^verbatim>\<open>%\<close> truncates towards zero.\<close>

definition js_rem :: "int \<Rightarrow> int \<Rightarrow> int" where
  "js_rem a b = sgn a * (\<bar>a\<bar> mod \<bar>b\<bar>)"

text \<open>\<^verbatim>\<open>x || d\<close> on an optional number: \<^verbatim>\<open>undefined\<close> and \<^verbatim>\<open>0\<close> are falsy.\<close>

definition or_default :: "'a::zero option \<Rightarrow> 'a \<Rightarrow> 'a" where
  "or_default v d = (case v of None \<Rightarrow> d | Some x \<Rightarrow> if x = 0 then d else x)"

text \<open>Reading an array at an index: \<^verbatim>\<open>undefined\<close> outside its bounds.\<close>

definition nth_opt :: "'a list \<Rightarrow> int \<Rightarrow> 'a option" where
  "nth_opt xs i = (if 0 \<le> i \<and> i < int (length xs) then Some (xs ! nat i) else None)"

text \<open>\<^verbatim>\<open>Array.prototype.indexOf\<close> (the first position, or nothing) and \<^verbatim>\<open>splice(i, 1)\<close>.\<close>

fun indexOf :: "'a list \<Rightarrow> 'a \<Rightarrow> nat option" where
  "indexOf [] x = None"
| "indexOf (y # ys) x = (if y = x then Some 0 else map_option Suc (indexOf ys x))"

definition splice1 :: "nat \<Rightarrow> 'a list \<Rightarrow> 'a list" where
  "splice1 i xs = take i xs @ drop (Suc i) xs"

subsection \<open>Completions\<close>

datatype exn = TypeError

datatype 'a completion = Returns 'a | Throws exn

subsection \<open>Units\<close>

type_synonym ref = nat

record Unit =
  lane :: int
  position :: rat
  health :: rat
  maxHealth :: rat
  damage :: rat
  attackSpeed :: rat
  attackRange :: rat
  moveSpeed :: rat
  attackCooldown :: rat

datatype MinionClass = Ashling | Gravelim | Gnarlroot | DaemonAltar | Dreadchant

datatype HeroClass = Militiant | AshboltScout | Oathblade

text \<open>
  \<open>cost\<close> is the instance field set by the \<^verbatim>\<open>Minion\<close> constructor (always 5); the price
  of a placement is the static getter \<open>MinionClass_cost\<close>. \<open>pulseTimer\<close> is used by
  \<^verbatim>\<open>DaemonAltar\<close> only, \<open>baseAttackSpeed\<close> by \<^verbatim>\<open>Oathblade\<close> only.
\<close>

record Minion = Unit +
  minionClass :: MinionClass
  cost :: rat
  cooldown :: rat
  pulseTimer :: rat

record Hero = Unit +
  heroClass :: HeroClass
  direction :: rat
  baseAttackSpeed :: rat

definition Minion_new :: "MinionClass \<Rightarrow> int \<Rightarrow> rat \<Rightarrow> Minion" where
  "Minion_new c laneIx pos =
     (let base = \<lparr> lane = laneIx, position = pos, health = 100, maxHealth = 100,
                    damage = 10, attackSpeed = 1, attackRange = 1, moveSpeed = 1 / 2,
                    attackCooldown = 0,
                    minionClass = c, cost = 5, cooldown = 0, pulseTimer = 0 \<rparr>
      in case c of
           Ashling \<Rightarrow> base\<lparr> health := 60, maxHealth := 60, damage := 15,
                            attackSpeed := 6 / 5, attackRange := 5, moveSpeed := 0 \<rparr>
         | Gravelim \<Rightarrow> base\<lparr> health := 40, maxHealth := 40, damage := 12,
                             attackSpeed := 4 / 5, attackRange := 7, moveSpeed := 0 \<rparr>
         | Gnarlroot \<Rightarrow> base\<lparr> health := 200, maxHealth := 200, damage := 0,
                              attackSpeed := 0, attackRange := 0, moveSpeed := 0 \<rparr>
         | DaemonAltar \<Rightarrow> base\<lparr> health := 80, maxHealth := 80, damage := 0,
                                attackSpeed := 0, attackRange := 0, moveSpeed := 0 \<rparr>
         | Dreadchant \<Rightarrow> base\<lparr> health := 80, maxHealth := 80, damage := 10,
                               attackSpeed := 1, attackRange := 2, moveSpeed := 0 \<rparr>)"

fun MinionClass_cost :: "MinionClass \<Rightarrow> rat" where
  "MinionClass_cost Ashling = 3"
| "MinionClass_cost Gravelim = 5"
| "MinionClass_cost Gnarlroot = 4"
| "MinionClass_cost DaemonAltar = 8"
| "MinionClass_cost Dreadchant = 8"

definition MinionRegistry :: "string \<Rightarrow> MinionClass option" where
  "MinionRegistry k =
     (if k = ''ashling'' then Some Ashling
      else if k = ''gravelim'' then Some Gravelim
      else if k = ''gnarlroot'' then Some Gnarlroot
      else if k = ''daemonaltar'' then Some DaemonAltar
      else if k = ''dreadchant'' then Some Dreadchant
      else None)"

text \<open>
  \<^verbatim>\<open>MinionRegistry[key]\<close> reads a property of the object literal, so a key the literal
  does not have is looked up on \<^verbatim>\<open>Object.prototype\<close>. There \<^verbatim>\<open>constructor\<close> is the
  function \<^verbatim>\<open>Object\<close>; the other names are built-in methods, and for \<^verbatim>\<open>__proto__\<close> the
  prototype object itself, none of which can be called with \<^verbatim>\<open>new\<close>. All of these
  values are truthy, and none has a property \<^verbatim>\<open>cost\<close>.
\<close>

datatype RegistryValue = DefenderClass MinionClass | ObjectFunction | NotConstructible

definition Object_prototype_methods :: "string list" where
  "Object_prototype_methods =
     [''toString'', ''toLocaleString'', ''valueOf'', ''hasOwnProperty'', ''isPrototypeOf'',
      ''propertyIsEnumerable'', ''__proto__'', ''__defineGetter__'', ''__defineSetter__'',
      ''__lookupGetter__'', ''__lookupSetter__'']"

definition MinionRegistry_get :: "string \<Rightarrow> RegistryValue option" where
  "MinionRegistry_get k =
     (case MinionRegistry k of
        Some c \<Rightarrow> Some (DefenderClass c)
      | None \<Rightarrow>
          if k = ''constructor'' then Some ObjectFunction
          else if k \<in> set Object_prototype_methods then Some NotConstructible
          else None)"

text \<open>The static \<^verbatim>\<open>cost\<close> of what the registry gave: \<^verbatim>\<open>undefined\<close> unless it is a defender class.\<close>

fun RegistryValue_cost :: "RegistryValue \<Rightarrow> rat option" where
  "RegistryValue_cost (DefenderClass c) = Some (MinionClass_cost c)"
| "RegistryValue_cost ObjectFunction = None"
| "RegistryValue_cost NotConstructible = None"

definition Hero_new :: "HeroClass \<Rightarrow> int \<Rightarrow> rat \<Rightarrow> Hero" where
  "Hero_new c laneIx pos =
     (let base = \<lparr> lane = laneIx, position = pos, health = 100, maxHealth = 100,
                    damage = 10, attackSpeed = 1, attackRange = 1, moveSpeed = 1 / 2,
                    attackCooldown = 0,
                    heroClass = c, direction = - 1, baseAttackSpeed = 0 \<rparr>
      in case c of
           Militiant \<Rightarrow> base\<lparr> health := 80, maxHealth := 80, damage := 10,
                              attackSpeed := 1, attackRange := 1, moveSpeed := 3 / 10 \<rparr>
         | AshboltScout \<Rightarrow> base\<lparr> health := 50, maxHealth := 50, damage := 8,
                                 attackSpeed := 3 / 2, attackRange := 3, moveSpeed := 2 / 5 \<rparr>
         | Oathblade \<Rightarrow> base\<lparr> health := 120, maxHealth := 120, damage := 15,
                              baseAttackSpeed := 4 / 5, attackSpeed := 4 / 5,
                              attackRange := 1, moveSpeed := 1 / 4 \<rparr>)"

definition canAttack :: "'a Unit_scheme \<Rightarrow> 'b Unit_scheme \<Rightarrow> bool" where
  "canAttack u target = (\<bar>position u - position target\<bar> \<le> attackRange u)"

subsection \<open>Tiles and lanes\<close>

record Tile =
  tile_laneIndex :: int
  tile_position :: int
  minion :: "ref option"

definition Tile_new :: "int \<Rightarrow> int \<Rightarrow> Tile" where
  "Tile_new li p = \<lparr> tile_laneIndex = li, tile_position = p, minion = None \<rparr>"

definition Tile_isEmpty :: "Tile \<Rightarrow> bool" where
  "Tile_isEmpty t = (minion t = None)"

definition Tile_placeMinion :: "Tile \<Rightarrow> ref \<Rightarrow> bool \<times> Tile" where
  "Tile_placeMinion t m = (if \<not> Tile_isEmpty t then (False, t) else (True, t\<lparr> minion := Some m \<rparr>))"

definition Tile_removeMinion :: "Tile \<Rightarrow> Tile" where
  "Tile_removeMinion t = t\<lparr> minion := None \<rparr>"

record Lane =
  index :: int
  lane_tileCount :: int
  tiles :: "Tile list"
  heroes :: "ref list"
  minions :: "ref list"

definition Lane_new :: "int \<Rightarrow> int \<Rightarrow> Lane" where
  "Lane_new i n =
     \<lparr> index = i, lane_tileCount = n,
       tiles = map (\<lambda>j. Tile_new i (int j)) [0 ..< nat n],
       heroes = [], minions = [] \<rparr>"

text \<open>
  \<^verbatim>\<open>this.tiles[tileIndex].isEmpty()\<close> throws when the array has no such element; the
  constructor makes the array as long as \<open>lane_tileCount\<close>.
\<close>

definition Lane_canPlaceAt :: "Lane \<Rightarrow> int \<Rightarrow> bool completion" where
  "Lane_canPlaceAt l tileIndex =
     (if tileIndex < 0 \<or> tileIndex \<ge> lane_tileCount l then Returns False
      else case nth_opt (tiles l) tileIndex of
             None \<Rightarrow> Throws TypeError
           | Some t \<Rightarrow> Returns (Tile_isEmpty t))"

definition Lane_placeMinion :: "Lane \<Rightarrow> ref \<Rightarrow> int \<Rightarrow> bool completion \<times> Lane" where
  "Lane_placeMinion l m tileIndex =
     (case Lane_canPlaceAt l tileIndex of
        Throws e \<Rightarrow> (Throws e, l)
      | Returns False \<Rightarrow> (Returns False, l)
      | Returns True \<Rightarrow>
          (case nth_opt (tiles l) tileIndex of
             None \<Rightarrow> (Throws TypeError, l)
           | Some t \<Rightarrow>
               let (success, t') = Tile_placeMinion t m;
                   l1 = l\<lparr> tiles := (tiles l)[nat tileIndex := t'] \<rparr>;
                   l2 = (if success then l1\<lparr> minions := minions l1 @ [m] \<rparr> else l1)
               in (Returns success, l2)))"

definition Lane_addHero :: "Lane \<Rightarrow> ref \<Rightarrow> Lane" where
  "Lane_addHero l h = l\<lparr> heroes := heroes l @ [h] \<rparr>"

text \<open>A lane as its constructor leaves it and every method keeps it: one tile per index.\<close>

definition Lane_wf :: "Lane \<Rightarrow> bool" where
  "Lane_wf l = (0 \<le> lane_tileCount l \<and> int (length (tiles l)) = lane_tileCount l)"

subsection \<open>The game state\<close>

text \<open>What \<^verbatim>\<open>showFloatingText\<close> is given: the text alone, with its numbers kept apart.\<close>

datatype FloatingText =
    Text string
  | WaveIndicator int HeroClass
  | BossWaveText int
  | DaenBonusText int

text \<open>
  The fields of \<^verbatim>\<open>Game\<close>, then the two object stores with the next unused reference,
  the random sequence with the number of draws made so far, the delays of the pending
  \<^verbatim>\<open>setTimeout\<close> callbacks (each callback is \<^verbatim>\<open>spawnNextHero\<close>) and the log of floating
  texts. \<open>victory\<close> is not set by the constructor.
\<close>

record Game =
  daen :: rat
  lanes :: "Lane list"
  selectedMinionType :: "string option"
  gameOver :: bool
  victory :: "bool option"
  waveNumber :: int
  waveTimer :: rat
  waveInterval :: rat
  heroesInWave :: int
  heroesRemaining :: int
  onslaughtTriggered :: bool
  onslaughtComplete :: bool
  bossWave :: bool
  spawnTimer :: rat
  spawnDelay :: rat
  laneCount :: int
  tileCount :: int
  isPaused :: bool
  isPreparingNextWave :: bool
  preparationTimer :: rat
  minionStore :: "ref \<Rightarrow> Minion"
  heroStore :: "ref \<Rightarrow> Hero"
  nextRef :: ref
  randomSource :: "nat \<Rightarrow> rat"
  randomCalls :: nat
  pendingTimeouts :: "rat list"
  floatingTexts :: "FloatingText list"

definition Game_new :: "(nat \<Rightarrow> rat) \<Rightarrow> Game" where
  "Game_new rs =
     \<lparr> daen = 10,
       lanes = map (\<lambda>i. Lane_new (int i) 10) [0 ..< 7],
       selectedMinionType = None,
       gameOver = False,
       victory = None,
       waveNumber = 0,
       waveTimer = 0,
       waveInterval = 30000,
       heroesInWave = 0,
       heroesRemaining = 0,
       onslaughtTriggered = False,
       onslaughtComplete = False,
       bossWave = False,
       spawnTimer = 0,
       spawnDelay = 1000,
       laneCount = 7,
       tileCount = 10,
       isPaused = False,
       isPreparingNextWave = False,
       preparationTimer = 0,
       minionStore = (\<lambda>_. Minion_new Ashling 0 0),
       heroStore = (\<lambda>_. Hero_new Militiant 0 0),
       nextRef = 0,
       randomSource = rs,
       randomCalls = 0,
       pendingTimeouts = [],
       floatingTexts = [] \<rparr>"

definition Math_random :: "Game \<Rightarrow> rat \<times> Game" where
  "Math_random g = (randomSource g (randomCalls g), g\<lparr> randomCalls := Suc (randomCalls g) \<rparr>)"

definition Game_showFloatingText :: "Game \<Rightarrow> FloatingText \<Rightarrow> Game" where
  "Game_showFloatingText g t = g\<lparr> floatingTexts := floatingTexts g @ [t] \<rparr>"

definition Game_allocMinion :: "Game \<Rightarrow> Minion \<Rightarrow> ref \<times> Game" where
  "Game_allocMinion g m =
     (nextRef g, g\<lparr> minionStore := (minionStore g)(nextRef g := m), nextRef := Suc (nextRef g) \<rparr>)"

definition Game_allocHero :: "Game \<Rightarrow> Hero \<Rightarrow> ref \<times> Game" where
  "Game_allocHero g h =
     (nextRef g, g\<lparr> heroStore := (heroStore g)(nextRef g := h), nextRef := Suc (nextRef g) \<rparr>)"

text \<open>Running a step that may throw, then the rest on the state it left.\<close>

definition andThen ::
  "'a completion \<times> Game \<Rightarrow> ('a \<Rightarrow> Game \<Rightarrow> 'b completion \<times> Game) \<Rightarrow> 'b completion \<times> Game" where
  "andThen r f = (case r of (Throws e, g) \<Rightarrow> (Throws e, g) | (Returns x, g) \<Rightarrow> f x g)"

subsection \<open>Targeting\<close>

text \<open>
  The loop of \<^verbatim>\<open>Minion.findTarget\<close> and \<^verbatim>\<open>Hero.findTarget\<close>: the two variables
  \<^verbatim>\<open>closestHero\<close>/\<^verbatim>\<open>closestMinion\<close> (initially \<^verbatim>\<open>null\<close>) and \<^verbatim>\<open>closestDistance\<close>
  (initially \<^verbatim>\<open>Infinity\<close>, here \<open>None\<close>) over the candidates in array order.
\<close>

fun findTarget_loop ::
  "rat \<Rightarrow> rat \<Rightarrow> (ref \<Rightarrow> rat) \<Rightarrow> ref list \<Rightarrow> ref option \<Rightarrow> rat option \<Rightarrow> ref option" where
  "findTarget_loop pos reach posOf [] closest closestDistance = closest"
| "findTarget_loop pos reach posOf (c # cs) closest closestDistance =
     (let distance = \<bar>pos - posOf c\<bar>
      in if distance \<le> reach \<and> (case closestDistance of None \<Rightarrow> True | Some d \<Rightarrow> distance < d)
         then findTarget_loop pos reach posOf cs (Some c) (Some distance)
         else findTarget_loop pos reach posOf cs closest closestDistance)"

definition Minion_findTarget :: "Game \<Rightarrow> 'a Unit_scheme \<Rightarrow> Lane \<Rightarrow> ref option" where
  "Minion_findTarget g u l =
     findTarget_loop (position u) (attackRange u) (\<lambda>r. position (heroStore g r)) (heroes l) None None"

definition Hero_findTarget :: "Game \<Rightarrow> 'a Unit_scheme \<Rightarrow> Lane \<Rightarrow> ref option" where
  "Hero_findTarget g u l =
     findTarget_loop (position u) (attackRange u) (\<lambda>r. position (minionStore g r)) (minions l) None None"

text \<open>
  The targeting rule in the specification's words: the candidate at index \<open>i\<close> is in
  range, no candidate in range is nearer, and every candidate in range before it is
  strictly farther (so it is the first of the nearest).
\<close>

definition first_nearest_in_range :: "rat \<Rightarrow> rat \<Rightarrow> (ref \<Rightarrow> rat) \<Rightarrow> ref list \<Rightarrow> nat \<Rightarrow> bool" where
  "first_nearest_in_range pos reach posOf xs i =
     (i < length xs \<and> \<bar>pos - posOf (xs ! i)\<bar> \<le> reach \<and>
      (\<forall>j < length xs. \<bar>pos - posOf (xs ! j)\<bar> \<le> reach \<longrightarrow>
            \<bar>pos - posOf (xs ! i)\<bar> \<le> \<bar>pos - posOf (xs ! j)\<bar>) \<and>
      (\<forall>j < i. \<bar>pos - posOf (xs ! j)\<bar> \<le> reach \<longrightarrow>
            \<bar>pos - posOf (xs ! i)\<bar> < \<bar>pos - posOf (xs ! j)\<bar>))"

text \<open>Being below the best distance so far; \<open>None\<close> stands for \<^verbatim>\<open>Infinity\<close>.\<close>

definition nearer_than :: "rat option \<Rightarrow> rat \<Rightarrow> bool" where
  "nearer_than b d = (case b of None \<Rightarrow> True | Some x \<Rightarrow> d < x)"

subsection \<open>Damage and death\<close>

text \<open>
  \<^verbatim>\<open>Dreadchant.onEnemyDeath\<close>; no other class has the method, which is what
  \<^verbatim>\<open>Lane.removeHero\<close> tests before calling it.
\<close>

definition Dreadchant_onEnemyDeath :: "Game \<Rightarrow> ref \<Rightarrow> ref \<Rightarrow> Game" where
  "Dreadchant_onEnemyDeath g m h =
     (if \<bar>position (minionStore g m) - position (heroStore g h)\<bar> \<le> 3
      then Game_showFloatingText (g\<lparr> daen := daen g + 3 \<rparr>) (Text ''+3 Daen'')
      else g)"

definition Minion_onEnemyDeath :: "Game \<Rightarrow> ref \<Rightarrow> ref \<Rightarrow> Game" where
  "Minion_onEnemyDeath g m h =
     (if minionClass (minionStore g m) = Dreadchant then Dreadchant_onEnemyDeath g m h else g)"

text \<open>\<^verbatim>\<open>Lane.removeHero\<close> of the lane at index \<open>li\<close> of \<^verbatim>\<open>game.lanes\<close>.\<close>

definition Lane_removeHero :: "Game \<Rightarrow> nat \<Rightarrow> ref \<Rightarrow> Game" where
  "Lane_removeHero g li h =
     (case indexOf (heroes (lanes g ! li)) h of
        None \<Rightarrow> g
      | Some i \<Rightarrow>
          let g1 = fold (\<lambda>m s. Minion_onEnemyDeath s m h) (minions (lanes g ! li)) g;
              (u, g2) = Math_random g1;
              g3 = (if u < 1 / 2
                    then Game_showFloatingText (g2\<lparr> daen := daen g2 + 1 \<rparr>) (Text ''+1 Daen'')
                    else g2)
          in g3\<lparr> lanes := (lanes g3)[li := (lanes g3 ! li)\<lparr> heroes := splice1 i (heroes (lanes g3 ! li)) \<rparr>] \<rparr>)"

text \<open>
  \<^verbatim>\<open>Lane.removeMinion\<close>: out of the \<^verbatim>\<open>minions\<close> array, and out of the tile at the floor
  of the defender's position when that tile holds this defender.
\<close>

definition Lane_removeMinion :: "Game \<Rightarrow> nat \<Rightarrow> ref \<Rightarrow> unit completion \<times> Game" where
  "Lane_removeMinion g li m =
     (let l = lanes g ! li;
          l1 = (case indexOf (minions l) m of
                  None \<Rightarrow> l
                | Some i \<Rightarrow> l\<lparr> minions := splice1 i (minions l) \<rparr>);
          tileIndex = \<lfloor>position (minionStore g m)\<rfloor>
      in if tileIndex \<ge> 0 \<and> tileIndex < lane_tileCount l1 then
           (case nth_opt (tiles l1) tileIndex of
              None \<Rightarrow> (Throws TypeError, g\<lparr> lanes := (lanes g)[li := l1] \<rparr>)
            | Some t \<Rightarrow>
                if minion t = Some m
                then (Returns (),
                      g\<lparr> lanes := (lanes g)[li := l1\<lparr> tiles := (tiles l1)[nat tileIndex := Tile_removeMinion t] \<rparr>] \<rparr>)
                else (Returns (), g\<lparr> lanes := (lanes g)[li := l1] \<rparr>))
         else (Returns (), g\<lparr> lanes := (lanes g)[li := l1] \<rparr>))"

text \<open>
  \<^verbatim>\<open>die\<close> looks its lane up in \<^verbatim>\<open>game.lanes\<close> by the unit's \<^verbatim>\<open>lane\<close> field; the method
  call on \<^verbatim>\<open>undefined\<close> throws.
\<close>

definition Hero_die :: "Game \<Rightarrow> ref \<Rightarrow> unit completion \<times> Game" where
  "Hero_die g h =
     (case nth_opt (lanes g) (lane (heroStore g h)) of
        None \<Rightarrow> (Throws TypeError, g)
      | Some _ \<Rightarrow> (Returns (), Lane_removeHero g (nat (lane (heroStore g h))) h))"

definition Minion_die :: "Game \<Rightarrow> ref \<Rightarrow> unit completion \<times> Game" where
  "Minion_die g m =
     (case nth_opt (lanes g) (lane (minionStore g m)) of
        None \<Rightarrow> (Throws TypeError, g)
      | Some _ \<Rightarrow> Lane_removeMinion g (nat (lane (minionStore g m))) m)"

text \<open>\<^verbatim>\<open>Unit.takeDamage\<close>, once for each store.\<close>

definition Hero_takeDamage :: "Game \<Rightarrow> ref \<Rightarrow> rat \<Rightarrow> bool completion \<times> Game" where
  "Hero_takeDamage g h amount =
     (let u = heroStore g h;
          g1 = g\<lparr> heroStore := (heroStore g)(h := u\<lparr> health := health u - amount \<rparr>) \<rparr>
      in if health (heroStore g1 h) \<le> 0 then
           andThen (Hero_die (g1\<lparr> heroStore := (heroStore g1)(h := (heroStore g1 h)\<lparr> health := 0 \<rparr>) \<rparr>) h)
             (\<lambda>_ g2. (Returns True, g2))
         else (Returns False, g1))"

definition Minion_takeDamage :: "Game \<Rightarrow> ref \<Rightarrow> rat \<Rightarrow> bool completion \<times> Game" where
  "Minion_takeDamage g m amount =
     (let u = minionStore g m;
          g1 = g\<lparr> minionStore := (minionStore g)(m := u\<lparr> health := health u - amount \<rparr>) \<rparr>
      in if health (minionStore g1 m) \<le> 0 then
           andThen (Minion_die (g1\<lparr> minionStore := (minionStore g1)(m := (minionStore g1 m)\<lparr> health := 0 \<rparr>) \<rparr>) m)
             (\<lambda>_ g2. (Returns True, g2))
         else (Returns False, g1))"

text \<open>\<^verbatim>\<open>Unit.attack\<close>: a defender attacks an attacker, an attacker a defender.\<close>

definition Minion_attack :: "Game \<Rightarrow> ref \<Rightarrow> ref \<Rightarrow> bool completion \<times> Game" where
  "Minion_attack g m target =
     (if \<not> canAttack (minionStore g m) (heroStore g target) then (Returns False, g)
      else Hero_takeDamage g target (damage (minionStore g m)))"

definition Hero_attack :: "Game \<Rightarrow> ref \<Rightarrow> ref \<Rightarrow> bool completion \<times> Game" where
  "Hero_attack g h target =
     (if \<not> canAttack (heroStore g h) (minionStore g target) then (Returns False, g)
      else Minion_takeDamage g target (damage (heroStore g h)))"



subsection \<open>Unit updates\<close>

definition Unit_move :: "Game \<Rightarrow> 'a Unit_scheme \<Rightarrow> rat \<Rightarrow> rat \<Rightarrow> 'a Unit_scheme" where
  "Unit_move g u deltaTime dir =
     (let distance = (moveSpeed u * deltaTime) / 1000;
          p = position u + distance * dir
      in u\<lparr> position := max 0 (min (of_int (tileCount g) - 1) p) \<rparr>)"

text \<open>
  \<^verbatim>\<open>Hero.update\<close>. The cooldown after an attack is \<^verbatim>\<open>1000 / attackSpeed\<close>; every attacker
  class has a positive attack speed (1, 1.5, and at least 0.8 for the Oathblade).
\<close>

definition Hero_update_base :: "Game \<Rightarrow> ref \<Rightarrow> rat \<Rightarrow> unit completion \<times> Game" where
  "Hero_update_base g h deltaTime =
     (let u = heroStore g h;
          u1 = (if attackCooldown u > 0 then u\<lparr> attackCooldown := attackCooldown u - deltaTime \<rparr> else u);
          g1 = g\<lparr> heroStore := (heroStore g)(h := u1) \<rparr>
      in case nth_opt (lanes g1) (lane u1) of
           None \<Rightarrow> (Throws TypeError, g1)
         | Some l \<Rightarrow>
             (case Hero_findTarget g1 u1 l of
                Some target \<Rightarrow>
                  if attackCooldown u1 \<le> 0 then
                    andThen (Hero_attack g1 h target)
                      (\<lambda>_ g2. (Returns (),
                         g2\<lparr> heroStore := (heroStore g2)
                              (h := (heroStore g2 h)\<lparr> attackCooldown := 1000 / attackSpeed (heroStore g2 h) \<rparr>) \<rparr>))
                  else (Returns (), g1)
              | None \<Rightarrow>
                  (Returns (),
                   g1\<lparr> heroStore := (heroStore g1)(h := Unit_move g1 u1 deltaTime (direction u1)) \<rparr>)))"

text \<open>\<^verbatim>\<open>Oathblade.update\<close> recomputes the attack speed, then runs \<^verbatim>\<open>Hero.update\<close>.\<close>

definition Hero_update :: "Game \<Rightarrow> ref \<Rightarrow> rat \<Rightarrow> unit completion \<times> Game" where
  "Hero_update g h deltaTime =
     (let u = heroStore g h
      in if heroClass u = Oathblade then
           Hero_update_base
             (g\<lparr> heroStore := (heroStore g)
                  (h := u\<lparr> attackSpeed := baseAttackSpeed u * (2 - health u / maxHealth u) \<rparr>) \<rparr>)
             h deltaTime
         else Hero_update_base g h deltaTime)"

definition Minion_update_base :: "Game \<Rightarrow> ref \<Rightarrow> rat \<Rightarrow> unit completion \<times> Game" where
  "Minion_update_base g m deltaTime =
     (let u = minionStore g m;
          u1 = (if attackCooldown u > 0 then u\<lparr> attackCooldown := attackCooldown u - deltaTime \<rparr> else u);
          g1 = g\<lparr> minionStore := (minionStore g)(m := u1) \<rparr>
      in case nth_opt (lanes g1) (lane u1) of
           None \<Rightarrow> (Throws TypeError, g1)
         | Some l \<Rightarrow>
             andThen
               (case Minion_findTarget g1 u1 l of
                  Some target \<Rightarrow>
                    if attackCooldown u1 \<le> 0 then
                      andThen (Minion_attack g1 m target)
                        (\<lambda>_ g2. (Returns (),
                           g2\<lparr> minionStore := (minionStore g2)
                                (m := (minionStore g2 m)\<lparr> attackCooldown := 1000 / attackSpeed (minionStore g2 m) \<rparr>) \<rparr>))
                    else (Returns (), g1)
                | None \<Rightarrow> (Returns (), g1))
               (\<lambda>_ g3. (Returns (),
                  if cooldown (minionStore g3 m) > 0
                  then g3\<lparr> minionStore := (minionStore g3)
                            (m := (minionStore g3 m)\<lparr> cooldown := cooldown (minionStore g3 m) - deltaTime \<rparr>) \<rparr>
                  else g3)))"

definition DaemonAltar_update :: "Game \<Rightarrow> ref \<Rightarrow> rat \<Rightarrow> Game" where
  "DaemonAltar_update g m deltaTime =
     (let u = minionStore g m;
          u1 = u\<lparr> pulseTimer := pulseTimer u + deltaTime \<rparr>;
          g1 = g\<lparr> minionStore := (minionStore g)(m := u1) \<rparr>
      in if pulseTimer u1 \<ge> 20000
         then g1\<lparr> daen := daen g1 + 1, minionStore := (minionStore g1)(m := u1\<lparr> pulseTimer := 0 \<rparr>) \<rparr>
         else g1)"

definition Minion_update :: "Game \<Rightarrow> ref \<Rightarrow> rat \<Rightarrow> unit completion \<times> Game" where
  "Minion_update g m deltaTime =
     (case minionClass (minionStore g m) of
        Gnarlroot \<Rightarrow> (Returns (), g)
      | DaemonAltar \<Rightarrow> (Returns (), DaemonAltar_update g m deltaTime)
      | _ \<Rightarrow> Minion_update_base g m deltaTime)"

definition Tile_update :: "Game \<Rightarrow> Tile \<Rightarrow> rat \<Rightarrow> unit completion \<times> Game" where
  "Tile_update g t deltaTime =
     (case minion t of None \<Rightarrow> (Returns (), g) | Some m \<Rightarrow> Minion_update g m deltaTime)"

text \<open>
  \<^verbatim>\<open>Lane.update\<close>: the tiles in order, each read when its turn comes, then the attackers
  from the last index down.
\<close>

fun Lane_updateTiles :: "Game \<Rightarrow> nat \<Rightarrow> nat list \<Rightarrow> rat \<Rightarrow> unit completion \<times> Game" where
  "Lane_updateTiles g li [] deltaTime = (Returns (), g)"
| "Lane_updateTiles g li (i # rest) deltaTime =
     (case nth_opt (tiles (lanes g ! li)) (int i) of
        None \<Rightarrow> (Returns (), g)
      | Some t \<Rightarrow> andThen (Tile_update g t deltaTime) (\<lambda>_ g'. Lane_updateTiles g' li rest deltaTime))"

fun Lane_updateHeroes :: "Game \<Rightarrow> nat \<Rightarrow> nat \<Rightarrow> rat \<Rightarrow> unit completion \<times> Game" where
  "Lane_updateHeroes g li 0 deltaTime = (Returns (), g)"
| "Lane_updateHeroes g li (Suc i) deltaTime =
     (case nth_opt (heroes (lanes g ! li)) (int i) of
        None \<Rightarrow> (Throws TypeError, g)
      | Some h \<Rightarrow> andThen (Hero_update g h deltaTime) (\<lambda>_ g'. Lane_updateHeroes g' li i deltaTime))"

definition Lane_update :: "Game \<Rightarrow> nat \<Rightarrow> rat \<Rightarrow> unit completion \<times> Game" where
  "Lane_update g li deltaTime =
     andThen (Lane_updateTiles g li [0 ..< length (tiles (lanes g ! li))] deltaTime)
       (\<lambda>_ g'. Lane_updateHeroes g' li (length (heroes (lanes g' ! li))) deltaTime)"

text \<open>
  A defender of the attacker's lane stands within the attacker's \<^verbatim>\<open>attackRange\<close>.
\<close>

definition defender_in_range :: "Game \<Rightarrow> ref \<Rightarrow> bool" where
  "defender_in_range g h =
     (case nth_opt (lanes g) (lane (heroStore g h)) of
        None \<Rightarrow> False
      | Some l \<Rightarrow>
          list_ex (\<lambda>m. \<bar>position (heroStore g h) - position (minionStore g m)\<bar> \<le> attackRange (heroStore g h))
            (minions l))"

text \<open>The first step of \<open>Hero_update\<close> on its own: the Oathblade's new attack speed.\<close>

definition oathblade_speed :: "Game \<Rightarrow> ref \<Rightarrow> Game" where
  "oathblade_speed g h =
     (if heroClass (heroStore g h) = Oathblade
      then g\<lparr> heroStore := (heroStore g)
                (h := (heroStore g h)\<lparr> attackSpeed := baseAttackSpeed (heroStore g h) *
                                           (2 - health (heroStore g h) / maxHealth (heroStore g h)) \<rparr>) \<rparr>
      else g)"

subsection \<open>Placement\<close>

text \<open>
  \<^verbatim>\<open>canPlaceMinion\<close>. The comparison \<^verbatim>\<open>this.daen < MinionClass.cost\<close> is false when the
  cost is \<^verbatim>\<open>undefined\<close>.
\<close>

definition Game_canPlaceMinion :: "Game \<Rightarrow> int \<Rightarrow> int \<Rightarrow> bool" where
  "Game_canPlaceMinion g laneIndex tileIndex =
     (if laneIndex < 0 \<or> laneIndex \<ge> laneCount g \<or> tileIndex < 0 \<or> tileIndex \<ge> tileCount g
      then False
      else case selectedMinionType g of
             None \<Rightarrow> False
           | Some k \<Rightarrow>
               if k = [] then False
               else (case MinionRegistry_get k of
                       None \<Rightarrow> False
                     | Some v \<Rightarrow>
                         if (case RegistryValue_cost v of None \<Rightarrow> False | Some c \<Rightarrow> daen g < c) then False
                         else (case nth_opt (lanes g) laneIndex of
                                 None \<Rightarrow> False
                               | Some l \<Rightarrow>
                                   (case nth_opt (tiles l) tileIndex of
                                      None \<Rightarrow> False
                                    | Some t \<Rightarrow> minion t = None))))"

text \<open>
  \<^verbatim>\<open>placeMinionAt\<close> ends its successful branch with \<^verbatim>\<open>this.playSound('place')\<close>. No class
  of the repository defines \<^verbatim>\<open>playSound\<close> and nothing assigns it to the game object, so
  the call is a call of \<^verbatim>\<open>undefined\<close>.
\<close>

definition Game_playSound :: "Game \<Rightarrow> string \<Rightarrow> unit completion \<times> Game" where
  "Game_playSound g name = (Throws TypeError, g)"

text \<open>
  \<^verbatim>\<open>placeMinionAt\<close>. With a defender class from the registry it constructs the defender
  and hands it to the lane. With an inherited method \<^verbatim>\<open>new MinionClass(...)\<close> throws.
  With \<^verbatim>\<open>Object\<close> the expression \<^verbatim>\<open>new Object(laneIndex, tileIndex, this)\<close> is a
  \<^verbatim>\<open>Number\<close> object; when the lane refuses the tile the method returns \<^verbatim>\<open>false\<close>, and
  when the lane accepts it the tile and the lane's array hold that object and
  \<^verbatim>\<open>this.daen -= undefined\<close> leaves \<^verbatim>\<open>NaN\<close>. A state of this embedding has defenders
  in its tiles and a number as its Daen, so that one outcome lies outside it and is
  the result \<open>None\<close>; every other outcome is \<open>Some\<close> of the completion and the state.
\<close>

definition Game_placeMinionAt :: "Game \<Rightarrow> int \<Rightarrow> int \<Rightarrow> (bool completion \<times> Game) option" where
  "Game_placeMinionAt g laneIndex tileIndex =
     (if \<not> Game_canPlaceMinion g laneIndex tileIndex then Some (Returns False, g)
      else case Option.bind (selectedMinionType g) MinionRegistry_get of
             None \<Rightarrow> Some (Throws TypeError, g)
           | Some NotConstructible \<Rightarrow> Some (Throws TypeError, g)
           | Some ObjectFunction \<Rightarrow>
               (case nth_opt (lanes g) laneIndex of
                  None \<Rightarrow> Some (Throws TypeError, g)
                | Some l \<Rightarrow>
                    (case Lane_canPlaceAt l tileIndex of
                       Throws e \<Rightarrow> Some (Throws e, g)
                     | Returns False \<Rightarrow> Some (Returns False, g)
                     | Returns True \<Rightarrow> None))
           | Some (DefenderClass c) \<Rightarrow>
               (case nth_opt (lanes g) laneIndex of
                  None \<Rightarrow> Some (Throws TypeError, g)
                | Some l \<Rightarrow>
                    let (m, g1) = Game_allocMinion g (Minion_new c laneIndex (of_int tileIndex))
                    in (case Lane_placeMinion l m tileIndex of
                          (Throws e, l') \<Rightarrow> Some (Throws e, g1\<lparr> lanes := (lanes g1)[nat laneIndex := l'] \<rparr>)
                        | (Returns placed, l') \<Rightarrow>
                            let g2 = g1\<lparr> lanes := (lanes g1)[nat laneIndex := l'] \<rparr>
                            in if placed then
                                 Some (andThen (Game_playSound (g2\<lparr> daen := daen g2 - MinionClass_cost c \<rparr>) ''place'')
                                         (\<lambda>_ g3. (Returns True, g3)))
                               else Some (Returns False, g2))))"

text \<open>
  A placement request as the specification describes a valid one: both indices in
  bounds, a known type selected, enough Daen for its price, the tile empty.
\<close>

definition valid_request :: "Game \<Rightarrow> int \<Rightarrow> int \<Rightarrow> bool" where
  "valid_request g laneIndex tileIndex =
     (0 \<le> laneIndex \<and> laneIndex < laneCount g \<and> 0 \<le> tileIndex \<and> tileIndex < tileCount g \<and>
      (\<exists>k c. selectedMinionType g = Some k \<and> MinionRegistry k = Some c \<and> MinionClass_cost c \<le> daen g) \<and>
      (\<exists>l t. nth_opt (lanes g) laneIndex = Some l \<and> nth_opt (tiles l) tileIndex = Some t \<and> minion t = None))"

text \<open>
  A request for an empty tile, in bounds, while the selected name is no key of the
  registry but a property name that every object inherits.
\<close>

definition inherited_name_request :: "Game \<Rightarrow> int \<Rightarrow> int \<Rightarrow> bool" where
  "inherited_name_request g laneIndex tileIndex =
     (0 \<le> laneIndex \<and> laneIndex < laneCount g \<and> 0 \<le> tileIndex \<and> tileIndex < tileCount g \<and>
      (\<exists>k. selectedMinionType g = Some k \<and> (k = ''constructor'' \<or> k \<in> set Object_prototype_methods)) \<and>
      (\<exists>l t. nth_opt (lanes g) laneIndex = Some l \<and> nth_opt (tiles l) tileIndex = Some t \<and> minion t = None))"

subsection \<open>Waves\<close>

record WaveOptions =
  opt_isBossWave :: "bool option"
  opt_heroCount :: "int option"
  opt_spawnDelay :: "rat option"
  opt_waveType :: "string option"
  opt_waveNumber :: "int option"

definition no_wave_options :: WaveOptions where
  "no_wave_options =
     \<lparr> opt_isBossWave = None, opt_heroCount = None, opt_spawnDelay = None,
       opt_waveType = None, opt_waveNumber = None \<rparr>"

record SpawnOptions =
  opt_heroType :: "string option"
  opt_healthMultiplier :: "rat option"
  opt_damageMultiplier :: "rat option"
  opt_speedMultiplier :: "rat option"
  opt_startTile :: "rat option"

definition no_spawn_options :: SpawnOptions where
  "no_spawn_options =
     \<lparr> opt_heroType = None, opt_healthMultiplier = None, opt_damageMultiplier = None,
       opt_speedMultiplier = None, opt_startTile = None \<rparr>"

text \<open>\<^verbatim>\<open>1 + ((this.waveNumber - 1) * 0.05)\<close>, each step rounded to binary64.\<close>

definition Game_getWaveScaling :: "Game \<Rightarrow> rat" where
  "Game_getWaveScaling g = fl (1 + fl (of_int (waveNumber g - 1) * fl (1 / 20)))"

text \<open>\<^verbatim>\<open>Math.ceil(a * b)\<close> with the product rounded to binary64.\<close>

definition ceil_product :: "rat \<Rightarrow> rat \<Rightarrow> rat" where
  "ceil_product a b = of_int \<lceil>fl (a * b)\<rceil>"

text \<open>
  \<^verbatim>\<open>calculateHeroCount\<close> returns the count and sets the boss flag. The product with 1.5
  is exact in binary64.
\<close>

definition Game_calculateHeroCount :: "Game \<Rightarrow> int \<times> Game" where
  "Game_calculateHeroCount g =
     (let count = 10 + waveNumber g * 5
      in if js_rem (waveNumber g) 5 = 0
         then (\<lfloor>of_int count * (3 / 2 :: rat)\<rfloor>, g\<lparr> bossWave := True \<rparr>)
         else (count, g\<lparr> bossWave := False \<rparr>))"

text \<open>
  \<^verbatim>\<open>triggerOnslaught(multiplier, message)\<close>; the callers pass nothing, so the multiplier
  is 2 and the product exact.
\<close>

definition Game_triggerOnslaught :: "Game \<Rightarrow> rat \<Rightarrow> string \<Rightarrow> Game" where
  "Game_triggerOnslaught g multiplier message =
     (let g1 = g\<lparr> onslaughtTriggered := True, onslaughtComplete := False \<rparr>;
          onslaughtCount = \<lceil>of_int (heroesInWave g1) * multiplier\<rceil>;
          g2 = g1\<lparr> heroesInWave := heroesInWave g1 + onslaughtCount,
                   heroesRemaining := heroesRemaining g1 + onslaughtCount \<rparr>;
          g3 = g2\<lparr> spawnDelay := (if bossWave g2 then 400 else 500) \<rparr>
      in Game_showFloatingText g3 (Text message))"

text \<open>\<^verbatim>\<open>Math.ceil(this.heroesInWave * 0.2)\<close>.\<close>

definition onslaughtThreshold :: "Game \<Rightarrow> int" where
  "onslaughtThreshold g = \<lceil>fl (of_int (heroesInWave g) * fl (1 / 5))\<rceil>"


definition Game_startWave :: "Game \<Rightarrow> WaveOptions \<Rightarrow> Game" where
  "Game_startWave g options =
     (let g1 = g\<lparr> waveNumber := (case opt_waveNumber options of Some n \<Rightarrow> n | None \<Rightarrow> waveNumber g + 1),
                  onslaughtTriggered := False, onslaughtComplete := False,
                  isPreparingNextWave := False \<rparr>;
          (n, g2) = (case opt_heroCount options of
                       None \<Rightarrow> Game_calculateHeroCount g1
                     | Some c \<Rightarrow> if c = 0 then Game_calculateHeroCount g1 else (c, g1));
          g3 = g2\<lparr> heroesInWave := n, heroesRemaining := n \<rparr>;
          g4 = (case opt_spawnDelay options of
                  Some d \<Rightarrow> g3\<lparr> spawnDelay := d \<rparr>
                | None \<Rightarrow>
                    let g' = g3\<lparr> spawnDelay := max 300 (1000 - of_int (waveNumber g3) * 20) \<rparr>
                    in if opt_isBossWave options = Some True \<or> bossWave g'
                       then g'\<lparr> spawnDelay := 700, bossWave := True \<rparr>
                       else g');
          g5 = g4\<lparr> spawnTimer := 0 \<rparr>
      in if bossWave g5 then Game_showFloatingText g5 (BossWaveText (waveNumber g5 div 5)) else g5)"

text \<open>\<^verbatim>\<open>String.prototype.toLowerCase\<close> on ASCII letters.\<close>

definition toLowerCase :: "string \<Rightarrow> string" where
  "toLowerCase s =
     map (\<lambda>c. let n = (of_char c :: nat) in if 65 \<le> n \<and> n \<le> 90 then char_of (n + 32) else c) s"

definition heroClass_of_name :: "string \<Rightarrow> HeroClass" where
  "heroClass_of_name s =
     (let t = toLowerCase s
      in if t = ''ashbolt'' \<or> t = ''ashboltscout'' then AshboltScout
         else if t = ''oathblade'' then Oathblade
         else Militiant)"

definition Game_rollHeroClass :: "Game \<Rightarrow> HeroClass \<times> Game" where
  "Game_rollHeroClass g =
     (let (heroTypeRoll, g1) = Math_random g
      in (if waveNumber g1 \<ge> 10 \<and> heroTypeRoll > 7 / 10 then Oathblade
          else if waveNumber g1 \<ge> 5 \<and> heroTypeRoll > 1 / 2 then AshboltScout
          else Militiant, g1))"

definition Game_chooseHeroClass :: "Game \<Rightarrow> SpawnOptions \<Rightarrow> HeroClass \<times> Game" where
  "Game_chooseHeroClass g options =
     (case opt_heroType options of
        None \<Rightarrow> Game_rollHeroClass g
      | Some t \<Rightarrow> if t = [] then Game_rollHeroClass g else (heroClass_of_name t, g))"

text \<open>
  \<^verbatim>\<open>spawnHeroInLane\<close>. The attacker object is put into the store with the values it has
  when the method is done with it; nothing reads it earlier.
\<close>

definition Game_spawnHeroInLane :: "Game \<Rightarrow> int \<Rightarrow> SpawnOptions \<Rightarrow> ref option \<times> Game" where
  "Game_spawnHeroInLane g laneIndex options =
     (if laneIndex < 0 \<or> laneIndex \<ge> int (length (lanes g)) then (None, g)
      else
        let waveScaling = Game_getWaveScaling g;
            startTile = (case opt_startTile options of Some t \<Rightarrow> t | None \<Rightarrow> of_int (tileCount g) - 1);
            (c, g1) = Game_chooseHeroClass g options;
            hero = Hero_new c laneIndex startTile;
            healthScale = fl (waveScaling * or_default (opt_healthMultiplier options) 1);
            damageScale = fl (waveScaling * or_default (opt_damageMultiplier options) 1);
            speedScale = or_default (opt_speedMultiplier options) 1;
            hero1 = hero\<lparr> health := ceil_product (health hero) healthScale \<rparr>;
            hero2 = hero1\<lparr> maxHealth := health hero1,
                          damage := ceil_product (damage hero1) damageScale,
                          moveSpeed := moveSpeed hero1 * speedScale \<rparr>;
            hero3 = (if js_rem (waveNumber g1) 5 = 0
                     then let b = hero2\<lparr> health := ceil_product (health hero2) (3 / 2) \<rparr>
                          in b\<lparr> maxHealth := health b,
                                damage := ceil_product (damage b) (3 / 2),
                                moveSpeed := moveSpeed b * (4 / 5) \<rparr>
                     else hero2);
            waveSpeedScale = min (3 / 2) (1 + of_int (waveNumber g1 - 1) * (1 / 50));
            hero4 = hero3\<lparr> moveSpeed := moveSpeed hero3 * waveSpeedScale \<rparr>;
            (u, g2) = Math_random g1;
            hero5 = hero4\<lparr> moveSpeed := moveSpeed hero4 * (9 / 10 + u * (1 / 5)) \<rparr>;
            (r, g3) = Game_allocHero g2 hero5;
            g4 = g3\<lparr> lanes := (lanes g3)[nat laneIndex := Lane_addHero (lanes g3 ! nat laneIndex) r] \<rparr>
        in (Some r, Game_showFloatingText g4 (WaveIndicator (waveNumber g4) c)))"

text \<open>
  \<^verbatim>\<open>spawnNextHero\<close>. The \<^verbatim>\<open>setTimeout\<close> at its end queues the next call of itself with
  the jittered delay.
\<close>

definition Game_spawnNextHero :: "Game \<Rightarrow> Game" where
  "Game_spawnNextHero g =
     (if heroesRemaining g \<le> 0 then
        (if onslaughtTriggered g
         then g\<lparr> onslaughtComplete := True, onslaughtTriggered := False \<rparr>
         else g)
      else
        let (u, g1) = Math_random g;
            laneIndex = \<lfloor>u * of_int (laneCount g1)\<rfloor>;
            (_, g2) = Game_spawnHeroInLane g1 laneIndex no_spawn_options;
            g3 = g2\<lparr> heroesRemaining := heroesRemaining g2 - 1 \<rparr>;
            g4 = (if heroesRemaining g3 = onslaughtThreshold g3 \<and> \<not> onslaughtTriggered g3
                  then Game_triggerOnslaught g3 2 ''ONSLAUGHT!''
                  else g3)
        in if heroesRemaining g4 > 0 then
             let (v, g5) = Math_random g4;
                 delay = spawnDelay g5 + (v * 200 - 100)
             in g5\<lparr> pendingTimeouts := pendingTimeouts g5 @ [max 100 delay] \<rparr>
           else if onslaughtTriggered g4
                then g4\<lparr> onslaughtComplete := True, onslaughtTriggered := False \<rparr>
                else g4)"

definition Game_spawnWave :: "Game \<Rightarrow> WaveOptions \<Rightarrow> Game" where
  "Game_spawnWave g options = Game_spawnNextHero (Game_startWave g options)"

text \<open>
  A pending timeout comes due: the browser runs the callback, whatever the flags of the
  game say.
\<close>

definition Game_timeoutFires :: "Game \<Rightarrow> Game" where
  "Game_timeoutFires g =
     (case pendingTimeouts g of
        [] \<Rightarrow> g
      | d # rest \<Rightarrow> Game_spawnNextHero (g\<lparr> pendingTimeouts := rest \<rparr>))"

subsection \<open>Preparation, win and loss, the tick\<close>

definition Game_startNextWavePreparation :: "Game \<Rightarrow> rat \<Rightarrow> string \<Rightarrow> Game" where
  "Game_startNextWavePreparation g duration message =
     (if isPreparingNextWave g then g
      else
        let waveBonus = 10 + waveNumber g * 2;
            g1 = Game_showFloatingText (g\<lparr> daen := daen g + of_int waveBonus \<rparr>) (DaenBonusText waveBonus);
            g2 = g1\<lparr> isPreparingNextWave := True, preparationTimer := duration \<rparr>
        in Game_showFloatingText g2 (Text message))"

definition Game_areAllHeroesDead :: "Game \<Rightarrow> bool \<times> Game" where
  "Game_areAllHeroesDead g =
     (if list_ex (\<lambda>l. length (heroes l) > 0) (lanes g) then (False, g)
      else (True,
            if \<not> isPreparingNextWave g \<and> heroesRemaining g = 0 \<and> waveNumber g > 0
            then Game_startNextWavePreparation g 15000 ''PREPARE FOR NEXT WAVE!''
            else g))"

definition Game_checkGameOver :: "Game \<Rightarrow> Game" where
  "Game_checkGameOver g =
     (if list_ex (\<lambda>l. list_ex (\<lambda>h. position (heroStore g h) \<le> 0) (heroes l)) (lanes g)
      then g\<lparr> gameOver := True, victory := Some False \<rparr>
      else if waveNumber g \<ge> 10 then
             (let (dead, g1) = Game_areAllHeroesDead g
              in if dead then g1\<lparr> gameOver := True, victory := Some True \<rparr> else g1)
           else g)"

fun Game_updateLanes :: "Game \<Rightarrow> nat list \<Rightarrow> rat \<Rightarrow> unit completion \<times> Game" where
  "Game_updateLanes g [] deltaTime = (Returns (), g)"
| "Game_updateLanes g (li # rest) deltaTime =
     (if li < length (lanes g)
      then andThen (Lane_update g li deltaTime) (\<lambda>_ g'. Game_updateLanes g' rest deltaTime)
      else (Returns (), g))"

definition Game_update :: "Game \<Rightarrow> rat \<Rightarrow> unit completion \<times> Game" where
  "Game_update g deltaTime =
     (if gameOver g \<or> isPaused g then (Returns (), g)
      else
        let g1 = g\<lparr> daen := daen g + (deltaTime / 2000) * (16 / 25) \<rparr>;
            g2 = (if isPreparingNextWave g1 then
                    let p = g1\<lparr> preparationTimer := preparationTimer g1 - deltaTime \<rparr>
                    in if preparationTimer p \<le> 0
                       then Game_spawnWave (p\<lparr> isPreparingNextWave := False \<rparr>) no_wave_options
                       else p
                  else
                    let w = g1\<lparr> waveTimer := waveTimer g1 + deltaTime \<rparr>
                    in if waveTimer w \<ge> waveInterval w \<and> heroesInWave w = 0
                       then Game_spawnWave (w\<lparr> waveTimer := 0 \<rparr>) no_wave_options
                       else w)
        in andThen (Game_updateLanes g2 [0 ..< length (lanes g2)] deltaTime)
             (\<lambda>_ g3. (Returns (), Game_checkGameOver (snd (Game_areAllHeroesDead g3)))))"

subsection \<open>Events of a wave\<close>

text \<open>
  How often the onslaught has fired so far: \<^verbatim>\<open>triggerOnslaught\<close> hands its message to the
  renderer each time it runs, and nothing else shows that text.
\<close>

definition onslaughts :: "Game \<Rightarrow> nat" where
  "onslaughts g = count_list (floatingTexts g) (Text ''ONSLAUGHT!'')"




text \<open>
  The wave counters of a game state, and the two events as functions on the counters
  alone; the lemmas \<open>spawnNextHero_counters\<close> and \<open>checkForOnslaught_counters\<close> show
  that the methods act on the counters in exactly this way.
\<close>

type_synonym counters = "int \<times> int \<times> bool \<times> bool \<times> bool \<times> rat \<times> nat"

definition counters_of :: "Game \<Rightarrow> counters" where
  "counters_of g =
     (heroesInWave g, heroesRemaining g, onslaughtTriggered g, onslaughtComplete g,
      bossWave g, spawnDelay g, onslaughts g)"








subsection \<open>Concrete states\<close>

text \<open>A random source that returns the same number at every draw.\<close>

definition constant_random :: "rat \<Rightarrow> nat \<Rightarrow> rat" where
  "constant_random x n = x"

text \<open>A new game in which the player has picked the Gravelim (price 5, Daen 10).\<close>

definition gravelim_selected :: Game where
  "gravelim_selected = (Game_new (constant_random 0))\<lparr> selectedMinionType := Some ''gravelim'' \<rparr>"

text \<open>A new game in which the name \<open>k\<close> has been selected as the defender type.\<close>

definition name_selected :: "string \<Rightarrow> Game" where
  "name_selected k = (Game_new (constant_random 0))\<lparr> selectedMinionType := Some k \<rparr>"

text \<open>
  Wave 10 has started with its 90 attackers, the first one has been spawned and killed,
  89 are still to come and no lane holds an attacker.
\<close>

definition wave10_first_attacker_down :: Game where
  "wave10_first_attacker_down =
     (Game_new (constant_random 0))\<lparr> waveNumber := 10, heroesInWave := 90, heroesRemaining := 89 \<rparr>"

text \<open>The game after four waves, before \<^verbatim>\<open>startWave\<close> makes the fifth.\<close>

definition wave4_cleared :: Game where
  "wave4_cleared = (Game_new (constant_random 0))\<lparr> waveNumber := 4 \<rparr>"

text \<open>Wave 5, a boss wave; every draw of the random source gives 0.25.\<close>

definition wave5_boss :: Game where
  "wave5_boss = (Game_new (constant_random (1 / 4)))\<lparr> waveNumber := 5 \<rparr>"

text \<open>
  The first wave under way (15 attackers, 10 still to spawn, the next callback queued),
  and the game paused.
\<close>

definition paused_mid_wave :: Game where
  "paused_mid_wave =
     (Game_new (constant_random (1 / 4)))\<lparr> waveNumber := 1, heroesInWave := 15, heroesRemaining := 10,
        isPaused := True, pendingTimeouts := [900] \<rparr>"

text \<open>
  A lane with two defenders, at tiles 4 and 2, and two attackers, at 6 and 0; an
  attacker at 3 with range 1 is equally far from both defenders.
\<close>

definition tie_lane :: Lane where
  "tie_lane = (Lane_new 0 10)\<lparr> minions := [0, 1], heroes := [2, 3] \<rparr>"

definition tie_game :: Game where
  "tie_game =
     (Game_new (constant_random 0))
       \<lparr> minionStore := (\<lambda>r. Minion_new Ashling 0 (if r = 0 then 4 else 2)),
         heroStore := (\<lambda>r. Hero_new Militiant 0 (if r = 2 then 6 else 0)) \<rparr>"



text \<open>
  Lane 0 with a Gravelim (reference 0) on tile 4 and a Militiant (reference 1) at
  position 5, one tile away.
\<close>

definition duel_lane :: Lane where
  "duel_lane =
     (Lane_new 0 10)\<lparr> tiles := (tiles (Lane_new 0 10))[4 := (Tile_new 0 4)\<lparr> minion := Some 0 \<rparr>],
                      minions := [0], heroes := [1] \<rparr>"

definition duel_game :: Game where
  "duel_game =
     (Game_new (constant_random 0))
       \<lparr> lanes := (lanes (Game_new (constant_random 0)))[0 := duel_lane],
         minionStore := (\<lambda>r. Minion_new Gravelim 0 4),
         heroStore := (\<lambda>r. Hero_new Militiant 0 5),
         nextRef := 2 \<rparr>"

text \<open>The same duel with the Militiant's attack cooldown at 500 ms.\<close>

definition duel_cooling :: Game where
  "duel_cooling =
     duel_game\<lparr> heroStore := (\<lambda>r. (Hero_new Militiant 0 5)\<lparr> attackCooldown := 500 \<rparr>) \<rparr>"

section \<open>Properties\<close>

subsection \<open>Auxiliary facts\<close>

lemma js_rem_5: "js_rem w 5 = 0 \<longleftrightarrow> w mod 5 = 0"
  unfolding js_rem_def by (auto simp: sgn_if zmod_zminus1_eq_if)

lemma Game_new_nth_lane:
  "0 \<le> li \<Longrightarrow> li < 7 \<Longrightarrow> nth_opt (lanes (Game_new rs)) li = Some (Lane_new li 10)"
  by (simp add: Game_new_def nth_opt_def)

lemma Lane_new_nth_tile:
  "0 \<le> ti \<Longrightarrow> ti < n \<Longrightarrow> nth_opt (tiles (Lane_new i n)) ti = Some (Tile_new i ti)"
  by (simp add: Lane_new_def nth_opt_def)

lemma Game_new_no_heroes: "\<forall>l \<in> set (lanes (Game_new rs)). heroes l = []"
  by (auto simp: Game_new_def Lane_new_def)

subsection \<open>Placement through the game\<close>

lemma MinionRegistry_get_DefenderClass:
  "MinionRegistry_get k = Some (DefenderClass c) \<longleftrightarrow> MinionRegistry k = Some c"
  by (auto simp: MinionRegistry_get_def split: option.splits if_splits)

lemma MinionRegistry_inherited:
  "k = ''constructor'' \<or> k \<in> set Object_prototype_methods \<Longrightarrow> MinionRegistry k = None"
  unfolding Object_prototype_methods_def
  by (elim disjE; simp add: MinionRegistry_def) (elim disjE; simp)

lemma constructor_no_method: "''constructor'' \<notin> set Object_prototype_methods"
  by (simp add: Object_prototype_methods_def)

lemma MinionRegistry_get_inherited:
  "MinionRegistry_get k = Some ObjectFunction \<longleftrightarrow> k = ''constructor''"
  "MinionRegistry_get k = Some NotConstructible \<longleftrightarrow> k \<in> set Object_prototype_methods"
proof -
  show "MinionRegistry_get k = Some ObjectFunction \<longleftrightarrow> k = ''constructor''"
  proof (cases "MinionRegistry k")
    case None
    then show ?thesis by (simp add: MinionRegistry_get_def)
  next
    case (Some c)
    with MinionRegistry_inherited[of k] have "k \<noteq> ''constructor''" by auto
    with Some show ?thesis by (simp add: MinionRegistry_get_def)
  qed
  show "MinionRegistry_get k = Some NotConstructible \<longleftrightarrow> k \<in> set Object_prototype_methods"
  proof (cases "MinionRegistry k")
    case None
    then show ?thesis using constructor_no_method by (auto simp: MinionRegistry_get_def)
  next
    case (Some c)
    with MinionRegistry_inherited[of k] have "k \<notin> set Object_prototype_methods" by auto
    with Some show ?thesis by (simp add: MinionRegistry_get_def)
  qed
qed

lemma inherited_name_not_empty:
  "k = ''constructor'' \<or> k \<in> set Object_prototype_methods \<Longrightarrow> k \<noteq> []"
  unfolding Object_prototype_methods_def by (elim disjE; simp) (elim disjE; simp)


text \<open>
  \<^verbatim>\<open>canPlaceMinion\<close> accepts the valid requests, and also every request for an empty
  tile made while the selected name is an inherited property name, whatever the Daen.
\<close>

lemma canPlaceMinion_iff_valid:
  "Game_canPlaceMinion g li ti = (valid_request g li ti \<or> inherited_name_request g li ti)"
proof (cases "selectedMinionType g")
  case None
  then show ?thesis
    by (simp add: Game_canPlaceMinion_def valid_request_def inherited_name_request_def)
next
  case (Some k)
  show ?thesis
  proof (cases "MinionRegistry_get k")
    case None
    then have "MinionRegistry k = None" "k \<noteq> ''constructor''" "k \<notin> set Object_prototype_methods"
      by (auto simp: MinionRegistry_get_def split: option.splits if_splits)
    with Some None show ?thesis
      by (simp add: Game_canPlaceMinion_def valid_request_def inherited_name_request_def)
  next
    case v: (Some v)
    show ?thesis
    proof (cases v)
      case (DefenderClass c)
      with v have r: "MinionRegistry k = Some c" by (simp add: MinionRegistry_get_DefenderClass)
      then have n: "k \<noteq> ''constructor''" "k \<notin> set Object_prototype_methods"
        using MinionRegistry_inherited[of k] by auto
      from r have e: "k \<noteq> []" by (auto simp: MinionRegistry_def)
      show ?thesis
        using Some v DefenderClass r n e
        by (auto simp: Game_canPlaceMinion_def valid_request_def inherited_name_request_def
            split: option.splits)
    next
      case ObjectFunction
      with v have k: "k = ''constructor''" by (simp add: MinionRegistry_get_inherited)
      have r: "MinionRegistry k = None" "k \<noteq> []"
        using MinionRegistry_inherited[of k] inherited_name_not_empty[of k] k by simp_all
      show ?thesis
        using Some v ObjectFunction r
        by (auto simp: Game_canPlaceMinion_def valid_request_def inherited_name_request_def k
            split: option.splits)
    next
      case NotConstructible
      with v have k: "k \<in> set Object_prototype_methods" by (simp add: MinionRegistry_get_inherited)
      then have r: "MinionRegistry k = None" "k \<noteq> []"
        using MinionRegistry_inherited[of k] inherited_name_not_empty[of k] by simp_all
      show ?thesis
        using Some v NotConstructible r k
        by (auto simp: Game_canPlaceMinion_def valid_request_def inherited_name_request_def
            split: option.splits)
    qed
  qed
qed

text \<open>
  A request that is neither valid nor made under an inherited name is answered
  \<^verbatim>\<open>false\<close> and nothing at all changes.
\<close>

lemma placeMinionAt_invalid:
  "\<not> valid_request g li ti \<Longrightarrow> \<not> inherited_name_request g li ti \<Longrightarrow>
     Game_placeMinionAt g li ti = Some (Returns False, g)"
  by (simp add: Game_placeMinionAt_def canPlaceMinion_iff_valid)

text \<open>
  Under the name of an inherited method the request for an empty tile is not answered
  \<^verbatim>\<open>false\<close>: \<^verbatim>\<open>new\<close> throws, with the state as it was.
\<close>

lemma placeMinionAt_inherited_method:
  assumes "inherited_name_request g li ti" "selectedMinionType g = Some k"
    "k \<in> set Object_prototype_methods"
  shows "Game_placeMinionAt g li ti = Some (Throws TypeError, g)"
  using assms MinionRegistry_get_inherited(2)[of k]
  by (simp add: Game_placeMinionAt_def canPlaceMinion_iff_valid)

lemma name_selected_request:
  assumes "k = ''constructor'' \<or> k \<in> set Object_prototype_methods"
  shows "inherited_name_request (name_selected k) 0 0"
proof -
  have l: "nth_opt (lanes (name_selected k)) 0 = Some (Lane_new 0 10)"
    using Game_new_nth_lane[of 0] by (simp add: name_selected_def)
  have t: "nth_opt (tiles (Lane_new 0 10)) 0 = Some (Tile_new 0 0)"
    using Lane_new_nth_tile[of 0 10 0] by simp
  have s: "selectedMinionType (name_selected k) = Some k"
    "laneCount (name_selected k) = 7" "tileCount (name_selected k) = 10"
    by (simp_all add: name_selected_def Game_new_def)
  have e: "minion (Tile_new 0 0) = None" by (simp add: Tile_new_def)
  show ?thesis
    unfolding inherited_name_request_def using assms l t s e by simp
qed

text \<open>
  In a new game with \<^verbatim>\<open>toString\<close> selected the request for lane 0, tile 0 passes
  \<^verbatim>\<open>canPlaceMinion\<close> and \<^verbatim>\<open>placeMinionAt\<close> throws; with \<^verbatim>\<open>constructor\<close> selected
  it passes as well and the tile takes the \<^verbatim>\<open>Number\<close> object.
\<close>

lemma placeMinionAt_inherited_names:
  "Game_canPlaceMinion (name_selected ''toString'') 0 0"
  "Game_placeMinionAt (name_selected ''toString'') 0 0 = Some (Throws TypeError, name_selected ''toString'')"
  "Game_canPlaceMinion (name_selected ''constructor'') 0 0"
  "Game_placeMinionAt (name_selected ''constructor'') 0 0 = None"
proof -
  have m: "''toString'' \<in> set Object_prototype_methods" by (simp add: Object_prototype_methods_def)
  have a: "inherited_name_request (name_selected ''toString'') 0 0"
    by (rule name_selected_request) (simp add: m)
  have b: "inherited_name_request (name_selected ''constructor'') 0 0"
    by (rule name_selected_request) simp
  show "Game_canPlaceMinion (name_selected ''toString'') 0 0"
    unfolding canPlaceMinion_iff_valid using a by simp
  show "Game_canPlaceMinion (name_selected ''constructor'') 0 0"
    unfolding canPlaceMinion_iff_valid using b by simp
  show "Game_placeMinionAt (name_selected ''toString'') 0 0 = Some (Throws TypeError, name_selected ''toString'')"
    by (rule placeMinionAt_inherited_method[OF a _ m]) (simp add: name_selected_def)
  have l: "nth_opt (lanes (name_selected ''constructor'')) 0 = Some (Lane_new 0 10)"
    using Game_new_nth_lane[of 0] by (simp add: name_selected_def)
  have c: "Lane_canPlaceAt (Lane_new 0 10) 0 = Returns True"
    by (simp add: Lane_canPlaceAt_def Lane_new_def nth_opt_def Tile_isEmpty_def Tile_new_def)
  have s: "selectedMinionType (name_selected ''constructor'') = Some ''constructor''"
    by (simp add: name_selected_def)
  have g: "MinionRegistry_get ''constructor'' = Some ObjectFunction"
    by (simp add: MinionRegistry_get_inherited)
  show "Game_placeMinionAt (name_selected ''constructor'') 0 0 = None"
    unfolding Game_placeMinionAt_def canPlaceMinion_iff_valid using b by (simp add: s g l c)
qed

lemma Lane_placeMinion_empty_tile:
  assumes "nth_opt (tiles l) ti = Some t" "minion t = None" "ti < lane_tileCount l"
  shows "Lane_placeMinion l m ti =
           (Returns True, l\<lparr> tiles := (tiles l)[nat ti := t\<lparr> minion := Some m \<rparr>], minions := minions l @ [m] \<rparr>)"
proof -
  from assms(1) have "0 \<le> ti" by (auto simp: nth_opt_def split: if_splits)
  with assms show ?thesis
    by (simp add: Lane_placeMinion_def Lane_canPlaceAt_def Tile_isEmpty_def Tile_placeMinion_def)
qed

text \<open>
  A valid request puts a new defender on the tile and into the lane's array and takes
  its price off the Daen; then the call of \<^verbatim>\<open>playSound\<close> throws, so the method never
  reaches \<^verbatim>\<open>return true\<close>.
\<close>

lemma placeMinionAt_valid:
  assumes sel: "selectedMinionType g = Some k" "MinionRegistry k = Some c" "MinionClass_cost c \<le> daen g"
    and idx: "0 \<le> li" "li < laneCount g" "0 \<le> ti" "ti < tileCount g"
    and ln: "nth_opt (lanes g) li = Some l" "nth_opt (tiles l) ti = Some t" "minion t = None"
    and cnt: "ti < lane_tileCount l"
  shows "Game_placeMinionAt g li ti =
           Some (Throws TypeError,
            g\<lparr> minionStore := (minionStore g)(nextRef g := Minion_new c li (of_int ti)),
               nextRef := Suc (nextRef g),
               lanes := (lanes g)[nat li := l\<lparr> tiles := (tiles l)[nat ti := t\<lparr> minion := Some (nextRef g) \<rparr>],
                                               minions := minions l @ [nextRef g] \<rparr>],
               daen := daen g - MinionClass_cost c \<rparr>)"
proof -
  have v: "valid_request g li ti"
    unfolding valid_request_def using assms by auto
  have r: "MinionRegistry_get k = Some (DefenderClass c)"
    using sel(2) by (simp add: MinionRegistry_get_DefenderClass)
  show ?thesis
    using sel ln idx
    by (simp add: Game_placeMinionAt_def canPlaceMinion_iff_valid v r Game_allocMinion_def
        Lane_placeMinion_empty_tile[OF ln(2,3) cnt] Game_playSound_def andThen_def)
qed

text \<open>
  The defender \<^verbatim>\<open>placeMinionAt\<close> constructs is a new object: when every reference
  the lane holds was handed out before, the lane's array holds exactly one reference
  to the placed defender.
\<close>

lemma placeMinionAt_one_reference:
  assumes sel: "selectedMinionType g = Some k" "MinionRegistry k = Some c" "MinionClass_cost c \<le> daen g"
    and idx: "0 \<le> li" "li < laneCount g" "0 \<le> ti" "ti < tileCount g"
    and ln: "nth_opt (lanes g) li = Some l" "nth_opt (tiles l) ti = Some t" "minion t = None"
    and cnt: "ti < lane_tileCount l"
    and fresh: "\<forall>m \<in> set (minions l). m < nextRef g"
  shows "\<exists>g'. Game_placeMinionAt g li ti = Some (Throws TypeError, g') \<and>
           minion (tiles (lanes g' ! nat li) ! nat ti) = Some (nextRef g) \<and>
           count_list (minions (lanes g' ! nat li)) (nextRef g) = 1"
proof -
  from ln(1) idx(1) have a: "nat li < length (lanes g)"
    by (auto simp: nth_opt_def split: if_splits)
  from ln(2) idx(3) have b: "nat ti < length (tiles l)"
    by (auto simp: nth_opt_def split: if_splits)
  from fresh have c: "count_list (minions l) (nextRef g) = 0"
    by (auto simp: count_list_0_iff)
  show ?thesis
    unfolding placeMinionAt_valid[OF sel idx ln cnt]
    using a b c by simp
qed

text \<open>
  C1 (the code departs from the claim). In a new game with Daen 10 and the Gravelim
  selected, the request for lane 0, tile 0 is valid. \<^verbatim>\<open>placeMinionAt\<close> places the
  defender and leaves Daen 5, as the claim says, but it does not return \<^verbatim>\<open>true\<close>: it
  ends in the \<^verbatim>\<open>TypeError\<close> of the call to the missing \<^verbatim>\<open>playSound\<close>.
\<close>

theorem placeMinionAt_valid_request_throws:
  "valid_request gravelim_selected 0 0 \<and>
   daen gravelim_selected = 10 \<and>
   map_option fst (Game_placeMinionAt gravelim_selected 0 0) = Some (Throws TypeError) \<and>
   map_option (\<lambda>r. daen (snd r)) (Game_placeMinionAt gravelim_selected 0 0) = Some 5 \<and>
   map_option (\<lambda>r. minion (tiles (lanes (snd r) ! 0) ! 0)) (Game_placeMinionAt gravelim_selected 0 0)
     = Some (Some 0)"
proof -
  have l: "nth_opt (lanes gravelim_selected) 0 = Some (Lane_new 0 10)"
    using Game_new_nth_lane[of 0] by (simp add: gravelim_selected_def)
  have t: "nth_opt (tiles (Lane_new 0 10)) 0 = Some (Tile_new 0 0)"
    using Lane_new_nth_tile[of 0 10 0] by simp
  have s: "selectedMinionType gravelim_selected = Some ''gravelim''"
    "MinionRegistry ''gravelim'' = Some Gravelim" "MinionClass_cost Gravelim \<le> daen gravelim_selected"
    "laneCount gravelim_selected = 7" "tileCount gravelim_selected = 10" "daen gravelim_selected = 10"
    "nextRef gravelim_selected = 0" "length (lanes gravelim_selected) = 7"
    by (simp_all add: gravelim_selected_def Game_new_def MinionRegistry_def)
  have e: "minion (Tile_new 0 0) = None" "(0::int) < lane_tileCount (Lane_new 0 10)"
    "length (tiles (Lane_new 0 10)) = 10"
    by (simp_all add: Tile_new_def Lane_new_def)
  have v: "valid_request gravelim_selected 0 0"
    unfolding valid_request_def using l t s e by simp
  note p = placeMinionAt_valid[OF s(1,2,3) _ _ _ _ l t e(1,2)]
  show ?thesis
    using v by (simp add: p s e)
qed

subsection \<open>Win and loss\<close>

text \<open>An attacker at position 0 or below ends the game as a loss, whatever else holds.\<close>

lemma checkGameOver_loss:
  assumes "l \<in> set (lanes g)" "h \<in> set (heroes l)" "position (heroStore g h) \<le> 0"
  shows "gameOver (Game_checkGameOver g) \<and> victory (Game_checkGameOver g) = Some False"
proof -
  have "list_ex (\<lambda>l. list_ex (\<lambda>h. position (heroStore g h) \<le> 0) (heroes l)) (lanes g)"
    using assms by (auto simp: list_ex_iff)
  then show ?thesis by (simp add: Game_checkGameOver_def)
qed

lemma startNextWavePreparation_frame:
  "heroesRemaining (Game_startNextWavePreparation g d m) = heroesRemaining g \<and>
   waveNumber (Game_startNextWavePreparation g d m) = waveNumber g \<and>
   lanes (Game_startNextWavePreparation g d m) = lanes g"
  by (simp add: Game_startNextWavePreparation_def Game_showFloatingText_def Let_def)

text \<open>
  From wave 10 on, empty lanes end the game as a win; the number of attackers still to
  be spawned is not looked at.
\<close>

lemma checkGameOver_win_on_empty_lanes:
  assumes "\<forall>l \<in> set (lanes g). heroes l = []" "waveNumber g \<ge> 10"
  shows "gameOver (Game_checkGameOver g) \<and> victory (Game_checkGameOver g) = Some True \<and>
         heroesRemaining (Game_checkGameOver g) = heroesRemaining g"
proof -
  have a: "\<not> list_ex (\<lambda>l. list_ex (\<lambda>h. position (heroStore g h) \<le> 0) (heroes l)) (lanes g)"
    using assms(1) by (auto simp: list_ex_iff)
  have b: "\<not> list_ex (\<lambda>l. length (heroes l) > 0) (lanes g)"
    using assms(1) by (auto simp: list_ex_iff)
  show ?thesis
    using assms(2) a b
    by (simp add: Game_checkGameOver_def Game_areAllHeroesDead_def startNextWavePreparation_frame)
qed

text \<open>
  C4 (the code departs from the claim). Wave 10 has 89 attackers left to spawn and the
  lanes are empty: \<^verbatim>\<open>checkGameOver\<close> ends the game as a win, with the 89 still
  outstanding.
\<close>

theorem checkGameOver_win_with_attackers_unspawned:
  "heroesRemaining wave10_first_attacker_down = 89 \<and>
   gameOver (Game_checkGameOver wave10_first_attacker_down) \<and>
   victory (Game_checkGameOver wave10_first_attacker_down) = Some True \<and>
   heroesRemaining (Game_checkGameOver wave10_first_attacker_down) = 89"
proof -
  have a: "\<forall>l \<in> set (lanes wave10_first_attacker_down). heroes l = []"
    using Game_new_no_heroes[of "constant_random 0"] by (simp add: wave10_first_attacker_down_def)
  have b: "waveNumber wave10_first_attacker_down \<ge> 10" "heroesRemaining wave10_first_attacker_down = 89"
    by (simp_all add: wave10_first_attacker_down_def)
  from checkGameOver_win_on_empty_lanes[OF a b(1)] b(2) show ?thesis by simp
qed

subsection \<open>Starting a wave\<close>

lemma startWave_default_fields:
  fixes g :: Game
  defines "g' \<equiv> Game_startWave g no_wave_options" and "w \<equiv> waveNumber g + 1"
  shows "waveNumber g' = w"
    and "bossWave g' = (w mod 5 = 0)"
    and "heroesInWave g' = (if w mod 5 = 0 then \<lfloor>of_int (10 + 5 * w) * (3 / 2 :: rat)\<rfloor> else 10 + 5 * w)"
    and "heroesRemaining g' = heroesInWave g'"
    and "spawnDelay g' = (if w mod 5 = 0 then 700 else max 300 (1000 - 20 * of_int w))"
    and "\<not> onslaughtTriggered g'"
    and "\<not> onslaughtComplete g'"
  unfolding g'_def w_def
  by (simp_all add: Game_startWave_def no_wave_options_def Game_calculateHeroCount_def js_rem_5
      Game_showFloatingText_def Let_def mult.commute)

lemma boss_delay_against_formula:
  "(if w mod 5 = 0 then 700 else max 300 (1000 - 20 * of_int w)) < (max 300 (1000 - 20 * of_int w) :: rat)
     \<longleftrightarrow> w mod 5 = 0 \<and> w < (15 :: int)"
  by (auto simp: max_def)

lemma floor_105_2: "\<lfloor>(105 :: rat) / 2\<rfloor> = 52"
  by (simp add: floor_divide_of_int_eq[symmetric] floor_unique)

text \<open>
  C6, as the claim states it, fails at the fifth wave: the claim's hero count
  \<open>(10 + 5 * 5) * 1.5\<close> is 52.5 where the code has 52, and the boss delay of 700 ms is
  not slower (longer) than the 900 ms of the formula.
\<close>

theorem startWave_wave5_counterexample:
  "of_int (heroesInWave (Game_startWave wave4_cleared no_wave_options)) \<noteq> (10 + 5 * 5) * (3 / 2 :: rat) \<and>
   \<not> (max 300 (1000 - 20 * 5) < spawnDelay (Game_startWave wave4_cleared no_wave_options))"
proof -
  have w: "waveNumber wave4_cleared = 4" by (simp add: wave4_cleared_def)
  have "heroesInWave (Game_startWave wave4_cleared no_wave_options) = \<lfloor>(105::rat) / 2\<rfloor>"
    and "spawnDelay (Game_startWave wave4_cleared no_wave_options) = 700"
    using startWave_default_fields(3,5)[of wave4_cleared] w by simp_all
  then show ?thesis by (simp add: floor_105_2)
qed

text \<open>
  C6, amended. Without overrides \<^verbatim>\<open>startWave\<close> raises the wave number \<open>w\<close> by one,
  flags a boss wave exactly when \<open>w\<close> is a multiple of 5, sets both counters to
  \<open>10 + 5 * w\<close>, on a boss wave to that number times 1.5 rounded down, sets the spawn
  delay to \<open>max 300 (1000 - 20 * w)\<close> ms, on a boss wave to 700 ms, and clears both
  onslaught flags. The 700 ms are shorter than the formula's value exactly on the boss
  waves below 15.
\<close>

theorem startWave_without_overrides:
  "let g' = Game_startWave g no_wave_options; w = waveNumber g + 1
   in waveNumber g' = w \<and>
      bossWave g' = (w mod 5 = 0) \<and>
      heroesInWave g' = (if w mod 5 = 0 then \<lfloor>of_int (10 + 5 * w) * (3 / 2 :: rat)\<rfloor> else 10 + 5 * w) \<and>
      heroesRemaining g' = heroesInWave g' \<and>
      spawnDelay g' = (if w mod 5 = 0 then 700 else max 300 (1000 - 20 * of_int w)) \<and>
      \<not> onslaughtTriggered g' \<and> \<not> onslaughtComplete g' \<and>
      (spawnDelay g' < max 300 (1000 - 20 * of_int w) \<longleftrightarrow> w mod 5 = 0 \<and> w < 15)"
  unfolding Let_def
  apply (intro conjI startWave_default_fields)
  apply (subst startWave_default_fields(5))
  apply (rule boss_delay_against_formula)
  done

theorem startWave_without_overrides_witness:
  "waveNumber (Game_startWave (Game_new (constant_random 0)) no_wave_options) = 1 \<and>
   \<not> bossWave (Game_startWave (Game_new (constant_random 0)) no_wave_options) \<and>
   heroesInWave (Game_startWave (Game_new (constant_random 0)) no_wave_options) = 15 \<and>
   heroesRemaining (Game_startWave (Game_new (constant_random 0)) no_wave_options) = 15 \<and>
   spawnDelay (Game_startWave (Game_new (constant_random 0)) no_wave_options) = 980"
proof -
  have w: "waveNumber (Game_new (constant_random 0)) = 0" by (simp add: Game_new_def)
  note t = startWave_without_overrides[of "Game_new (constant_random 0)", unfolded Let_def w]
  have a: "waveNumber (Game_startWave (Game_new (constant_random 0)) no_wave_options) = 1"
    using t by simp
  have b: "\<not> bossWave (Game_startWave (Game_new (constant_random 0)) no_wave_options)"
    using t by simp
  have c: "heroesInWave (Game_startWave (Game_new (constant_random 0)) no_wave_options) = 15"
    using t by simp
  have d: "spawnDelay (Game_startWave (Game_new (constant_random 0)) no_wave_options) = 980"
    using t by simp
  have e: "heroesRemaining (Game_startWave (Game_new (constant_random 0)) no_wave_options) = 15"
    using t c by simp
  show ?thesis using a b c d e by (intro conjI)
qed

subsection \<open>Scaling of a spawned attacker\<close>

lemma Math_random_frame:
  "waveNumber (snd (Math_random g)) = waveNumber g"
  "lanes (snd (Math_random g)) = lanes g"
  "tileCount (snd (Math_random g)) = tileCount g"
  "nextRef (snd (Math_random g)) = nextRef g"
  by (simp_all add: Math_random_def)

lemma chooseHeroClass_frame:
  "waveNumber (snd (Game_chooseHeroClass g options)) = waveNumber g"
  "lanes (snd (Game_chooseHeroClass g options)) = lanes g"
  "nextRef (snd (Game_chooseHeroClass g options)) = nextRef g"
  by (simp_all add: Game_chooseHeroClass_def Game_rollHeroClass_def Math_random_def split_def Let_def
      split: option.splits)

lemma getWaveScaling_wave5:
  "waveNumber g = 5 \<Longrightarrow> Game_getWaveScaling g = fl (1 + fl (of_int (5 - 1) * fl (1 / 20)))"
  by (simp add: Game_getWaveScaling_def)

text \<open>The scaling factor of wave 5 is the binary64 number nearest to 1.20.\<close>

lemma wave5_factor: "fl (1 + fl (of_int (5 - 1) * fl (1 / 20))) = fl (6 / 5)"
  by code_simp

lemma wave5_scaling_of_80:
  "ceil_product (ceil_product 80 (fl (fl (1 + fl (of_int (5 - 1) * fl (1 / 20))) * 1))) (3 / 2) = 144"
  by code_simp

text \<open>
  In a lane that exists \<^verbatim>\<open>spawnHeroInLane\<close> returns an attacker whose health is the
  base health of its class times the health scale, rounded up, and on a boss wave
  that number times 1.5, rounded up again.
\<close>

lemma spawnHeroInLane_health:
  assumes "0 \<le> laneIndex" "laneIndex < int (length (lanes g))"
  shows "\<exists>r g'. Game_spawnHeroInLane g laneIndex options = (Some r, g') \<and>
           health (heroStore g' r) =
             (let c = fst (Game_chooseHeroClass g options);
                  h1 = ceil_product (health (Hero_new c laneIndex 0))
                         (fl (Game_getWaveScaling g * or_default (opt_healthMultiplier options) 1))
              in if js_rem (waveNumber g) 5 = 0 then ceil_product h1 (3 / 2) else h1) \<and>
           maxHealth (heroStore g' r) = health (heroStore g' r)"
  using assms
  by (simp add: Game_spawnHeroInLane_def Let_def split_def chooseHeroClass_frame Math_random_frame
      Game_allocHero_def Game_showFloatingText_def Hero_new_def split: HeroClass.splits)

text \<open>
  C7. On wave 5, in a lane that exists and without a health multiplier, an attacker of
  a class with base health 80 is spawned with health (and maximal health) exactly 144;
  the wave's scaling factor is the binary64 number nearest to 1.20.
\<close>

theorem wave5_base80_health_144:
  assumes wave: "waveNumber g = 5"
    and lane_ok: "0 \<le> laneIndex" "laneIndex < int (length (lanes g))"
    and no_mult: "opt_healthMultiplier options = None"
    and base: "health (Hero_new (fst (Game_chooseHeroClass g options)) laneIndex 0) = 80"
  shows "Game_getWaveScaling g = fl (6 / 5) \<and>
         (\<exists>r g'. Game_spawnHeroInLane g laneIndex options = (Some r, g') \<and>
           health (heroStore g' r) = 144 \<and> maxHealth (heroStore g' r) = 144)"
proof -
  from spawnHeroInLane_health[OF lane_ok, of options]
  obtain r g' where s: "Game_spawnHeroInLane g laneIndex options = (Some r, g')"
    and h: "health (heroStore g' r) =
             (let c = fst (Game_chooseHeroClass g options);
                  h1 = ceil_product (health (Hero_new c laneIndex 0))
                         (fl (Game_getWaveScaling g * or_default (opt_healthMultiplier options) 1))
              in if js_rem (waveNumber g) 5 = 0 then ceil_product h1 (3 / 2) else h1)"
    and m: "maxHealth (heroStore g' r) = health (heroStore g' r)"
    by blast
  have "health (heroStore g' r) =
          ceil_product (ceil_product 80 (fl (fl (1 + fl (of_int (5 - 1) * fl (1 / 20))) * 1))) (3 / 2)"
    unfolding h Let_def base getWaveScaling_wave5[OF wave] no_mult wave
    by (simp add: or_default_def js_rem_def)
  then have "health (heroStore g' r) = 144" by (simp only: wave5_scaling_of_80)
  with s m have "\<exists>r g'. Game_spawnHeroInLane g laneIndex options = (Some r, g') \<and>
           health (heroStore g' r) = 144 \<and> maxHealth (heroStore g' r) = 144" by simp
  moreover have "Game_getWaveScaling g = fl (6 / 5)"
    using getWaveScaling_wave5[OF wave] wave5_factor by simp
  ultimately show ?thesis by (rule conjI[rotated])
qed

theorem wave5_base80_health_144_witness:
  "Game_getWaveScaling wave5_boss = fl (6 / 5) \<and>
   (\<exists>r g'. Game_spawnHeroInLane wave5_boss 3 no_spawn_options = (Some r, g') \<and>
           health (heroStore g' r) = 144 \<and> maxHealth (heroStore g' r) = 144)"
proof -
  have a: "waveNumber wave5_boss = 5" "(3::int) < int (length (lanes wave5_boss))"
    by (simp_all add: wave5_boss_def Game_new_def)
  have b: "opt_healthMultiplier no_spawn_options = None" by (simp add: no_spawn_options_def)
  have c: "fst (Game_chooseHeroClass wave5_boss no_spawn_options) = Militiant"
    by (simp add: Game_chooseHeroClass_def Game_rollHeroClass_def Math_random_def no_spawn_options_def
        wave5_boss_def Game_new_def constant_random_def)
  have d: "health (Hero_new (fst (Game_chooseHeroClass wave5_boss no_spawn_options)) 3 0) = 80"
    unfolding c by (simp add: Hero_new_def)
  show ?thesis
    by (rule wave5_base80_health_144[OF a(1) _ a(2) b d]) simp
qed

subsection \<open>Pausing\<close>

lemma Math_random_flags:
  "isPaused (snd (Math_random g)) = isPaused g"
  "gameOver (snd (Math_random g)) = gameOver g"
  by (simp_all add: Math_random_def)

text \<open>While the game is paused (or over) a tick changes nothing.\<close>

lemma update_paused: "isPaused g \<Longrightarrow> Game_update g deltaTime = (Returns (), g)"
  by (simp add: Game_update_def)

lemma spawnHeroInLane_lanes:
  assumes "0 \<le> k" "k < int (length (lanes g))"
  shows "lanes (snd (Game_spawnHeroInLane g k options)) =
           (lanes g)[nat k := (lanes g ! nat k)\<lparr> heroes := heroes (lanes g ! nat k) @ [nextRef g] \<rparr>]"
    and "isPaused (snd (Game_spawnHeroInLane g k options)) = isPaused g"
    and "gameOver (snd (Game_spawnHeroInLane g k options)) = gameOver g"
  using assms
  by (simp_all add: Game_spawnHeroInLane_def Let_def split_def chooseHeroClass_frame Math_random_frame
      Game_allocHero_def Game_showFloatingText_def Lane_addHero_def Game_chooseHeroClass_def
      Game_rollHeroClass_def Math_random_def split: option.splits)

lemma triggerOnslaught_frame:
  "lanes (Game_triggerOnslaught g m s) = lanes g"
  "isPaused (Game_triggerOnslaught g m s) = isPaused g"
  "gameOver (Game_triggerOnslaught g m s) = gameOver g"
  by (simp_all add: Game_triggerOnslaught_def Game_showFloatingText_def Let_def)

text \<open>
  \<^verbatim>\<open>spawnNextHero\<close> reads neither \<^verbatim>\<open>isPaused\<close> nor \<^verbatim>\<open>gameOver\<close>: with attackers left
  to spawn it adds one to the lane the random draw picks.
\<close>

lemma spawnNextHero_ignores_pause:
  assumes "heroesRemaining g > 0"
    and "k = \<lfloor>randomSource g (randomCalls g) * of_int (laneCount g)\<rfloor>"
    and "0 \<le> k" "k < int (length (lanes g))"
  shows "lanes (Game_spawnNextHero g) =
           (lanes g)[nat k := (lanes g ! nat k)\<lparr> heroes := heroes (lanes g ! nat k) @ [nextRef g] \<rparr>]"
    and "isPaused (Game_spawnNextHero g) = isPaused g"
    and "gameOver (Game_spawnNextHero g) = gameOver g"
proof -
  let ?g1 = "snd (Math_random g)"
  have k: "\<lfloor>fst (Math_random g) * of_int (laneCount ?g1)\<rfloor> = k"
    using assms(2) by (simp add: Math_random_def)
  have r: "lanes ?g1 = lanes g" "nextRef ?g1 = nextRef g" "isPaused ?g1 = isPaused g" "gameOver ?g1 = gameOver g"
    by (simp_all add: Math_random_def)
  have b: "0 \<le> k" "k < int (length (lanes ?g1))" using assms(3,4) r by simp_all
  note s = spawnHeroInLane_lanes[OF b, of no_spawn_options, unfolded r]
  show "lanes (Game_spawnNextHero g) =
           (lanes g)[nat k := (lanes g ! nat k)\<lparr> heroes := heroes (lanes g ! nat k) @ [nextRef g] \<rparr>]"
    using assms(1)
    by (simp add: Game_spawnNextHero_def Let_def split_def k s triggerOnslaught_frame Math_random_frame
        Math_random_flags)
  show "isPaused (Game_spawnNextHero g) = isPaused g"
    using assms(1)
    by (simp add: Game_spawnNextHero_def Let_def split_def k s triggerOnslaught_frame Math_random_frame
        Math_random_flags)
  show "gameOver (Game_spawnNextHero g) = gameOver g"
    using assms(1)
    by (simp add: Game_spawnNextHero_def Let_def split_def k s triggerOnslaught_frame Math_random_frame
        Math_random_flags)
qed

lemma floor_7_4: "\<lfloor>(7 :: rat) / 4\<rfloor> = 1"
  by (rule floor_unique) simp_all

text \<open>
  C9 (the code departs from the claim). In the paused game a tick changes nothing, as
  the claim says; but when the queued timeout comes due, \<^verbatim>\<open>spawnNextHero\<close> runs and
  an attacker appears in lane 1 while the game is still paused.
\<close>

theorem paused_game_keeps_spawning:
  "isPaused paused_mid_wave \<and>
   Game_update paused_mid_wave 16 = (Returns (), paused_mid_wave) \<and>
   heroes (lanes paused_mid_wave ! 1) = [] \<and>
   isPaused (Game_timeoutFires paused_mid_wave) \<and>
   heroes (lanes (Game_timeoutFires paused_mid_wave) ! 1) = [0]"
proof -
  let ?g = "paused_mid_wave\<lparr> pendingTimeouts := [] \<rparr>"
  have p: "isPaused paused_mid_wave" by (simp add: paused_mid_wave_def)
  have f: "Game_timeoutFires paused_mid_wave = Game_spawnNextHero ?g"
    by (simp add: Game_timeoutFires_def paused_mid_wave_def)
  have a: "heroesRemaining ?g > 0" "(1::int) = \<lfloor>randomSource ?g (randomCalls ?g) * of_int (laneCount ?g)\<rfloor>"
    "(1::int) < int (length (lanes ?g))" "nextRef ?g = 0" "isPaused ?g"
    by (simp_all add: paused_mid_wave_def Game_new_def constant_random_def floor_7_4)
  have l: "lanes ?g ! 1 = Lane_new 1 10" "lanes paused_mid_wave ! 1 = Lane_new 1 10" "length (lanes ?g) = 7"
    by (simp_all add: paused_mid_wave_def Game_new_def)
  note s = spawnNextHero_ignores_pause[OF a(1,2) _ a(3)]
  have h: "heroes (lanes (Game_timeoutFires paused_mid_wave) ! 1) = [0]"
    unfolding f using s(1) a(4) l by (simp add: Lane_new_def)
  have q: "isPaused (Game_timeoutFires paused_mid_wave)"
    unfolding f using s(2) a(5) by simp
  have e: "heroes (lanes paused_mid_wave ! 1) = []" unfolding l by (simp add: Lane_new_def)
  show ?thesis using p update_paused[OF p] e q h by (intro conjI)
qed

subsection \<open>The targeting rule\<close>

text \<open>
  The loop from any intermediate state: either no remaining candidate is in range and
  nearer than the best so far, and the best so far is returned; or the result is the
  first of the nearest remaining candidates in range, and it is nearer than the best
  so far.
\<close>

lemma findTarget_loop_char:
  "(findTarget_loop pos reach posOf cs closest cd = closest \<and>
      (\<forall>c \<in> set cs. \<bar>pos - posOf c\<bar> \<le> reach \<longrightarrow> \<not> nearer_than cd \<bar>pos - posOf c\<bar>))
   \<or> (\<exists>i. first_nearest_in_range pos reach posOf cs i \<and> nearer_than cd \<bar>pos - posOf (cs ! i)\<bar> \<and>
          findTarget_loop pos reach posOf cs closest cd = Some (cs ! i))"
proof (induction cs arbitrary: closest cd)
  case Nil
  show ?case by simp
next
  case (Cons c cs)
  let ?d = "\<lambda>x. \<bar>pos - posOf x\<bar>"
  show ?case
  proof (cases "?d c \<le> reach \<and> nearer_than cd (?d c)")
    case True
    then have step: "findTarget_loop pos reach posOf (c # cs) closest cd
        = findTarget_loop pos reach posOf cs (Some c) (Some (?d c))"
      by (simp add: nearer_than_def Let_def)
    from Cons.IH[of "Some c" "Some (?d c)"] show ?thesis
    proof
      assume a: "findTarget_loop pos reach posOf cs (Some c) (Some (?d c)) = Some c \<and>
        (\<forall>x \<in> set cs. ?d x \<le> reach \<longrightarrow> \<not> nearer_than (Some (?d c)) (?d x))"
      have "first_nearest_in_range pos reach posOf (c # cs) 0"
        using True a unfolding first_nearest_in_range_def nearer_than_def
        by (auto simp: nth_Cons split: nat.splits)
      then show ?thesis using step a True by (intro disjI2 exI[of _ 0]) simp
    next
      assume "\<exists>i. first_nearest_in_range pos reach posOf cs i \<and> nearer_than (Some (?d c)) (?d (cs ! i)) \<and>
          findTarget_loop pos reach posOf cs (Some c) (Some (?d c)) = Some (cs ! i)"
      then obtain i where i: "first_nearest_in_range pos reach posOf cs i"
        "?d (cs ! i) < ?d c"
        "findTarget_loop pos reach posOf cs (Some c) (Some (?d c)) = Some (cs ! i)"
        by (auto simp: nearer_than_def)
      have "first_nearest_in_range pos reach posOf (c # cs) (Suc i)"
        using i(1,2) unfolding first_nearest_in_range_def
        by (auto simp: nth_Cons less_Suc_eq_0_disj split: nat.splits)
      moreover have "nearer_than cd (?d ((c # cs) ! Suc i))"
        using True i(2) by (auto simp: nearer_than_def split: option.splits)
      ultimately show ?thesis using step i(3) by (intro disjI2 exI[of _ "Suc i"]) simp
    qed
  next
    case False
    then have step: "findTarget_loop pos reach posOf (c # cs) closest cd
        = findTarget_loop pos reach posOf cs closest cd"
      by (auto simp add: nearer_than_def Let_def split: option.splits)
    from Cons.IH[of closest cd] show ?thesis
    proof
      assume "findTarget_loop pos reach posOf cs closest cd = closest \<and>
        (\<forall>x \<in> set cs. ?d x \<le> reach \<longrightarrow> \<not> nearer_than cd (?d x))"
      then show ?thesis using step False by auto
    next
      assume "\<exists>i. first_nearest_in_range pos reach posOf cs i \<and> nearer_than cd (?d (cs ! i)) \<and>
          findTarget_loop pos reach posOf cs closest cd = Some (cs ! i)"
      then obtain i where i: "first_nearest_in_range pos reach posOf cs i"
        "nearer_than cd (?d (cs ! i))"
        "findTarget_loop pos reach posOf cs closest cd = Some (cs ! i)"
        by auto
      have "first_nearest_in_range pos reach posOf (c # cs) (Suc i)"
        using i(1,2) False unfolding first_nearest_in_range_def nearer_than_def
        by (auto simp: nth_Cons less_Suc_eq_0_disj split: nat.splits option.splits)
      then show ?thesis using step i(2,3) by (intro disjI2 exI[of _ "Suc i"]) simp
    qed
  qed
qed


lemma findTarget_loop_none:
  "findTarget_loop pos reach posOf cs None None = None \<longleftrightarrow>
     (\<forall>c \<in> set cs. \<not> \<bar>pos - posOf c\<bar> \<le> reach)"
proof
  assume n: "findTarget_loop pos reach posOf cs None None = None"
  from findTarget_loop_char[of pos reach posOf cs None None] n
  show "\<forall>c \<in> set cs. \<not> \<bar>pos - posOf c\<bar> \<le> reach"
    by (auto simp: nearer_than_def)
next
  assume a: "\<forall>c \<in> set cs. \<not> \<bar>pos - posOf c\<bar> \<le> reach"
  from findTarget_loop_char[of pos reach posOf cs None None]
  show "findTarget_loop pos reach posOf cs None None = None"
  proof
    assume "findTarget_loop pos reach posOf cs None None = None \<and>
      (\<forall>c\<in>set cs. \<bar>pos - posOf c\<bar> \<le> reach \<longrightarrow> \<not> nearer_than None \<bar>pos - posOf c\<bar>)"
    then show ?thesis by simp
  next
    assume "\<exists>i. first_nearest_in_range pos reach posOf cs i \<and> nearer_than None \<bar>pos - posOf (cs ! i)\<bar> \<and>
      findTarget_loop pos reach posOf cs None None = Some (cs ! i)"
    then obtain i where "i < length cs" "\<bar>pos - posOf (cs ! i)\<bar> \<le> reach"
      by (auto simp: first_nearest_in_range_def)
    with a show ?thesis using nth_mem by blast
  qed
qed

lemma findTarget_loop_some:
  assumes "findTarget_loop pos reach posOf cs None None = Some t"
  shows "\<exists>i. first_nearest_in_range pos reach posOf cs i \<and> cs ! i = t"
  using findTarget_loop_char[of pos reach posOf cs None None] assms by auto

text \<open>
  C3. For an attacker \<open>u\<close> searching the lane's defenders and a defender \<open>v\<close>
  searching the lane's attackers, in whatever order the array holds them:
  \<^verbatim>\<open>findTarget\<close> returns nothing exactly when no candidate is within the searcher's
  \<open>attackRange\<close>; otherwise it returns a candidate within range at the smallest
  distance, and of several at that distance the one that comes first in the array. The
  result is a function of the positions, the range and the array order alone: no draw
  of the random source is involved.
\<close>

theorem findTarget_first_nearest:
  "(Hero_findTarget g u l = None \<longleftrightarrow>
      (\<forall>m \<in> set (minions l). \<not> \<bar>position u - position (minionStore g m)\<bar> \<le> attackRange u)) \<and>
   (\<forall>t. Hero_findTarget g u l = Some t \<longrightarrow>
      (\<exists>i. first_nearest_in_range (position u) (attackRange u) (\<lambda>r. position (minionStore g r)) (minions l) i \<and>
           minions l ! i = t)) \<and>
   (Minion_findTarget g v l = None \<longleftrightarrow>
      (\<forall>h \<in> set (heroes l). \<not> \<bar>position v - position (heroStore g h)\<bar> \<le> attackRange v)) \<and>
   (\<forall>t. Minion_findTarget g v l = Some t \<longrightarrow>
      (\<exists>i. first_nearest_in_range (position v) (attackRange v) (\<lambda>r. position (heroStore g r)) (heroes l) i \<and>
           heroes l ! i = t))"
  unfolding Hero_findTarget_def Minion_findTarget_def
  apply (intro conjI allI impI)
     apply (rule findTarget_loop_none)
    apply (erule findTarget_loop_some)
   apply (rule findTarget_loop_none)
  apply (erule findTarget_loop_some)
  done

theorem findTarget_first_nearest_witness:
  "Hero_findTarget tie_game (Hero_new Militiant 0 3) tie_lane = Some 0 \<and>
   (\<exists>i. first_nearest_in_range 3 1 (\<lambda>r. position (minionStore tie_game r)) [0, 1] i \<and> [0, 1] ! i = (0::nat)) \<and>
   Minion_findTarget tie_game (Minion_new Ashling 0 4) tie_lane = Some 2"
proof -
  have a: "Hero_findTarget tie_game (Hero_new Militiant 0 3) tie_lane = Some 0"
    by (simp add: Hero_findTarget_def tie_game_def tie_lane_def Hero_new_def Minion_new_def)
  have b: "Minion_findTarget tie_game (Minion_new Ashling 0 4) tie_lane = Some 2"
    by (simp add: Minion_findTarget_def tie_game_def tie_lane_def Hero_new_def Minion_new_def)
  have c: "position (Hero_new Militiant 0 3) = 3" "attackRange (Hero_new Militiant 0 3) = 1"
    "minions tie_lane = [0, 1]"
    by (simp_all add: Hero_new_def tie_lane_def)
  from findTarget_first_nearest[of tie_game "Hero_new Militiant 0 3" tie_lane] a
  have "\<exists>i. first_nearest_in_range 3 1 (\<lambda>r. position (minionStore tie_game r)) [0, 1] i \<and> [0, 1] ! i = (0::nat)"
    unfolding c by blast
  with a b show ?thesis by blast
qed

subsection \<open>Placement in a lane\<close>

lemma Lane_canPlaceAt_wf:
  assumes "Lane_wf l"
  shows "Lane_canPlaceAt l i = Returns (0 \<le> i \<and> i < lane_tileCount l \<and> Tile_isEmpty (tiles l ! nat i))"
  using assms by (auto simp: Lane_canPlaceAt_def Lane_wf_def nth_opt_def)

lemma Lane_placeMinion_wf:
  assumes "Lane_wf l"
  shows "Lane_placeMinion l m i =
          (if 0 \<le> i \<and> i < lane_tileCount l \<and> Tile_isEmpty (tiles l ! nat i)
           then (Returns True, l\<lparr> tiles := (tiles l)[nat i := (tiles l ! nat i)\<lparr> minion := Some m \<rparr>],
                                   minions := minions l @ [m] \<rparr>)
           else (Returns False, l))"
  using assms
  by (auto simp: Lane_placeMinion_def Lane_canPlaceAt_wf Lane_wf_def nth_opt_def Tile_placeMinion_def)

text \<open>
  C8, as the claim states it, fails for a defender the lane already holds:
  \<^verbatim>\<open>placeMinion\<close> does not look at the array before it pushes, so the same defender
  placed on tile 3 and then on tile 5 of a new lane is accepted twice and the array
  holds two references to it.
\<close>

theorem placeMinion_twice_counterexample:
  "fst (Lane_placeMinion (Lane_new 0 10) 0 3) = Returns True \<and>
   fst (Lane_placeMinion (snd (Lane_placeMinion (Lane_new 0 10) 0 3)) 0 5) = Returns True \<and>
   count_list (minions (snd (Lane_placeMinion (snd (Lane_placeMinion (Lane_new 0 10) 0 3)) 0 5))) 0 = 2"
proof -
  have wf: "Lane_wf (Lane_new 0 10)" by (simp add: Lane_wf_def Lane_new_def)
  have e: "Tile_isEmpty (tiles (Lane_new 0 10) ! 3)" "Tile_isEmpty (tiles (Lane_new 0 10) ! 5)"
    "lane_tileCount (Lane_new 0 10) = 10" "minions (Lane_new 0 10) = []"
    "length (tiles (Lane_new 0 10)) = 10"
    by (simp_all add: Lane_new_def Tile_isEmpty_def Tile_new_def)
  let ?l1 = "(Lane_new 0 10)\<lparr> tiles := (tiles (Lane_new 0 10))[nat 3 := (tiles (Lane_new 0 10) ! nat 3)\<lparr> minion := Some 0 \<rparr>],
                              minions := minions (Lane_new 0 10) @ [0] \<rparr>"
  have p1: "Lane_placeMinion (Lane_new 0 10) 0 3 = (Returns True, ?l1)"
    unfolding Lane_placeMinion_wf[OF wf] using e by simp
  have wf1: "Lane_wf ?l1" using wf by (simp add: Lane_wf_def)
  have e1: "Tile_isEmpty (tiles ?l1 ! nat 5)" "lane_tileCount ?l1 = 10" "minions ?l1 = [0]"
    using e by simp_all
  have p2: "fst (Lane_placeMinion ?l1 0 5) = Returns True"
    "minions (snd (Lane_placeMinion ?l1 0 5)) = [0, 0]"
    unfolding Lane_placeMinion_wf[OF wf1] using e1 by simp_all
  show ?thesis unfolding p1 using p2 by simp
qed

text \<open>
  C8, amended. For a lane with one tile per index, as the constructor makes it, and
  every integer \<open>i\<close>: \<^verbatim>\<open>canPlaceAt\<close> returns true exactly when \<open>0 \<le> i < tileCount\<close>
  and tile \<open>i\<close> holds no defender. A successful \<^verbatim>\<open>placeMinion\<close> leaves the lane in
  that shape, makes the tile hold the placed defender, and adds exactly one reference
  to it to the lane's \<^verbatim>\<open>minions\<close>; the array then holds exactly one reference to it
  exactly when it held none before.
\<close>

theorem canPlaceAt_and_placeMinion:
  assumes "Lane_wf l"
  shows "Lane_canPlaceAt l i = Returns (0 \<le> i \<and> i < lane_tileCount l \<and> Tile_isEmpty (tiles l ! nat i)) \<and>
         (\<forall>m l'. Lane_placeMinion l m i = (Returns True, l') \<longrightarrow>
            Lane_wf l' \<and> \<not> Tile_isEmpty (tiles l' ! nat i) \<and> minion (tiles l' ! nat i) = Some m \<and>
            count_list (minions l') m = count_list (minions l) m + 1 \<and>
            (count_list (minions l') m = 1 \<longleftrightarrow> m \<notin> set (minions l)))"
proof (intro conjI allI impI)
  show "Lane_canPlaceAt l i = Returns (0 \<le> i \<and> i < lane_tileCount l \<and> Tile_isEmpty (tiles l ! nat i))"
    by (rule Lane_canPlaceAt_wf[OF assms])
next
  fix m l'
  assume p: "Lane_placeMinion l m i = (Returns True, l')"
  then have ok: "0 \<le> i" "i < lane_tileCount l"
    and l': "l' = l\<lparr> tiles := (tiles l)[nat i := (tiles l ! nat i)\<lparr> minion := Some m \<rparr>],
                     minions := minions l @ [m] \<rparr>"
    unfolding Lane_placeMinion_wf[OF assms] by (auto split: if_splits)
  from ok assms have n: "nat i < length (tiles l)" by (auto simp: Lane_wf_def)
  show "Lane_wf l'" using assms by (simp add: l' Lane_wf_def)
  show "\<not> Tile_isEmpty (tiles l' ! nat i)" using n by (simp add: l' Tile_isEmpty_def)
  show "minion (tiles l' ! nat i) = Some m" using n by (simp add: l')
  show "count_list (minions l') m = count_list (minions l) m + 1" by (simp add: l')
  show "count_list (minions l') m = 1 \<longleftrightarrow> m \<notin> set (minions l)"
    by (simp add: l' count_list_0_iff)
qed

theorem canPlaceAt_and_placeMinion_witness:
  "Lane_wf (Lane_new 0 10) \<and>
   Lane_canPlaceAt (Lane_new 0 10) 3 = Returns True \<and>
   Lane_canPlaceAt (Lane_new 0 10) 10 = Returns False \<and>
   fst (Lane_placeMinion (Lane_new 0 10) 0 3) = Returns True \<and>
   count_list (minions (snd (Lane_placeMinion (Lane_new 0 10) 0 3))) 0 = 1 \<and>
   minion (tiles (snd (Lane_placeMinion (Lane_new 0 10) 0 3)) ! 3) = Some 0 \<and>
   Lane_canPlaceAt (snd (Lane_placeMinion (Lane_new 0 10) 0 3)) 3 = Returns False"
proof -
  have wf: "Lane_wf (Lane_new 0 10)" by (simp add: Lane_wf_def Lane_new_def)
  have e: "Tile_isEmpty (tiles (Lane_new 0 10) ! 3)" "lane_tileCount (Lane_new 0 10) = 10"
    "minions (Lane_new 0 10) = []"
    by (simp_all add: Lane_new_def Tile_isEmpty_def Tile_new_def)
  note t = canPlaceAt_and_placeMinion[OF wf]
  have a: "Lane_canPlaceAt (Lane_new 0 10) 3 = Returns True"
    using t[of 3] e by simp
  have b: "Lane_canPlaceAt (Lane_new 0 10) 10 = Returns False"
    using t[of 10] e by simp
  obtain l' where p: "Lane_placeMinion (Lane_new 0 10) 0 3 = (Returns True, l')"
    using Lane_placeMinion_wf[OF wf, of 0 3] e by simp
  from t[of 3] p e have q: "Lane_wf l'" "\<not> Tile_isEmpty (tiles l' ! nat 3)" "minion (tiles l' ! nat 3) = Some 0"
    "count_list (minions l') 0 = 1"
    by auto
  have r: "lane_tileCount l' = 10"
    using p unfolding Lane_placeMinion_wf[OF wf] by (auto simp: e split: if_splits)
  have c: "Lane_canPlaceAt l' 3 = Returns False"
    using canPlaceAt_and_placeMinion[OF q(1), of 3] q(2) by simp
  show ?thesis using wf a b p q c by simp
qed

subsection \<open>The onslaught\<close>


lemma Math_random_counters [simp]:
  "counters_of (snd (Math_random g)) = counters_of g"
  by (simp add: counters_of_def Math_random_def onslaughts_def)

lemma spawnHeroInLane_counters [simp]:
  "counters_of (snd (Game_spawnHeroInLane g k options)) = counters_of g"
  by (simp add: counters_of_def Game_spawnHeroInLane_def Let_def split_def Game_chooseHeroClass_def
      Game_rollHeroClass_def Math_random_def Game_allocHero_def Game_showFloatingText_def onslaughts_def
      split: option.splits)






























subsection \<open>Damage and death, once\<close>

lemma indexOf_None: "indexOf xs x = None \<longleftrightarrow> x \<notin> set xs"
  by (induction xs) auto

lemma indexOf_splice1: "indexOf xs x = Some i \<Longrightarrow> splice1 i xs = remove1 x xs"
proof (induction xs arbitrary: i)
  case Nil
  then show ?case by simp
next
  case (Cons y ys)
  show ?case
  proof (cases "y = x")
    case True
    with Cons.prems show ?thesis by (simp add: splice1_def)
  next
    case False
    with Cons.prems obtain j where j: "indexOf ys x = Some j" "i = Suc j" by auto
    from Cons.IH[OF j(1)] False j(2) show ?thesis by (simp add: splice1_def)
  qed
qed

lemma removed_by_index:
  "(case indexOf xs x of None \<Rightarrow> xs | Some i \<Rightarrow> splice1 i xs) = remove1 x xs"
proof (cases "indexOf xs x")
  case None
  then have "x \<notin> set xs" by (simp add: indexOf_None)
  with None show ?thesis by (simp add: remove1_idem)
next
  case (Some i)
  then show ?thesis by (simp add: indexOf_splice1)
qed








lemma lanes_update_same: "li < length (lanes g) \<Longrightarrow> g\<lparr> lanes := (lanes g)[li := lanes g ! li] \<rparr> = g"
  by simp









lemma duel_game_facts:
  "nth_opt (lanes duel_game) 0 = Some duel_lane"
  "lane (heroStore duel_game 1) = 0" "health (heroStore duel_game 1) = 80"
  "lane (minionStore duel_game 0) = 0" "health (minionStore duel_game 0) = 40"
  "position (minionStore duel_game 0) = 4"
  "heroes duel_lane = [1]" "minions duel_lane = [0]" "Lane_wf duel_lane"
  "randomCalls duel_game = 0"
  by (simp_all add: duel_game_def duel_lane_def Game_new_def Hero_new_def Minion_new_def nth_opt_def
      Lane_new_def Lane_wf_def)





subsection \<open>The update of an attacker\<close>

lemma Lane_removeMinion_heroStore:
  "heroStore (snd (Lane_removeMinion g li m)) = heroStore g \<and>
   tileCount (snd (Lane_removeMinion g li m)) = tileCount g"
  by (simp add: Lane_removeMinion_def Let_def split: option.splits)

lemma Minion_takeDamage_heroStore:
  "heroStore (snd (Minion_takeDamage g m a)) = heroStore g"
  by (simp add: Minion_takeDamage_def Let_def Minion_die_def andThen_def split_def
      Lane_removeMinion_heroStore split: option.splits completion.splits prod.splits)

lemma Hero_attack_heroStore:
  "heroStore (snd (Hero_attack g h t)) = heroStore g"
  by (simp add: Hero_attack_def Minion_takeDamage_heroStore)


lemma Hero_findTarget_None_iff:
  "Hero_findTarget g u l = None \<longleftrightarrow>
     \<not> list_ex (\<lambda>m. \<bar>position u - position (minionStore g m)\<bar> \<le> attackRange u) (minions l)"
  unfolding Hero_findTarget_def findTarget_loop_none by (simp add: list_ex_iff)

text \<open>What the base update does, by the two questions it asks.\<close>

lemma Hero_update_base_cases:
  fixes g :: Game and h :: ref and deltaTime :: rat and l :: Lane
  assumes ln: "nth_opt (lanes g) (lane (heroStore g h)) = Some l"
  defines "u1 \<equiv> (if attackCooldown (heroStore g h) > 0
                  then (heroStore g h)\<lparr> attackCooldown := attackCooldown (heroStore g h) - deltaTime \<rparr>
                  else heroStore g h)"
  defines "g1 \<equiv> g\<lparr> heroStore := (heroStore g)(h := u1) \<rparr>"
  defines "near \<equiv> list_ex (\<lambda>m. \<bar>position (heroStore g h) - position (minionStore g m)\<bar>
                                  \<le> attackRange (heroStore g h)) (minions l)"
  shows "near \<Longrightarrow> attackCooldown u1 > 0 \<Longrightarrow> Hero_update_base g h deltaTime = (Returns (), g1)"
    and "near \<Longrightarrow> position (heroStore (snd (Hero_update_base g h deltaTime)) h) = position (heroStore g h)"
    and "\<not> near \<Longrightarrow> Hero_update_base g h deltaTime =
           (Returns (), g1\<lparr> heroStore := (heroStore g1)(h := Unit_move g1 u1 deltaTime (direction u1)) \<rparr>)"
proof -
  have u: "lane u1 = lane (heroStore g h)" "position u1 = position (heroStore g h)"
    "attackRange u1 = attackRange (heroStore g h)"
    by (simp_all add: u1_def)
  have l1: "nth_opt (lanes g1) (lane u1) = Some l" using ln by (simp add: g1_def u)
  have ft: "Hero_findTarget g1 u1 l = None \<longleftrightarrow> \<not> near"
    unfolding Hero_findTarget_None_iff near_def u by (simp add: g1_def)
  have unf: "Hero_update_base g h deltaTime =
     (case Hero_findTarget g1 u1 l of
        Some target \<Rightarrow>
          if attackCooldown u1 \<le> 0 then
            andThen (Hero_attack g1 h target)
              (\<lambda>_ g2. (Returns (),
                 g2\<lparr> heroStore := (heroStore g2)
                      (h := (heroStore g2 h)\<lparr> attackCooldown := 1000 / attackSpeed (heroStore g2 h) \<rparr>) \<rparr>))
          else (Returns (), g1)
      | None \<Rightarrow>
          (Returns (), g1\<lparr> heroStore := (heroStore g1)(h := Unit_move g1 u1 deltaTime (direction u1)) \<rparr>))"
    unfolding Hero_update_base_def Let_def u1_def[symmetric] g1_def[symmetric] l1 by simp
  {
    assume n: near and c: "attackCooldown u1 > 0"
    from n ft obtain t where "Hero_findTarget g1 u1 l = Some t" by (cases "Hero_findTarget g1 u1 l") auto
    with c show "Hero_update_base g h deltaTime = (Returns (), g1)" unfolding unf by simp
  }
  {
    assume n: near
    from n ft obtain t where t: "Hero_findTarget g1 u1 l = Some t" by (cases "Hero_findTarget g1 u1 l") auto
    show "position (heroStore (snd (Hero_update_base g h deltaTime)) h) = position (heroStore g h)"
    proof (cases "attackCooldown u1 \<le> 0")
      case False
      then show ?thesis unfolding unf t by (simp add: g1_def u)
    next
      case True
      have hs: "heroStore (snd (Hero_attack g1 h t)) = heroStore g1" by (rule Hero_attack_heroStore)
      obtain r g2 where a: "Hero_attack g1 h t = (r, g2)" by (cases "Hero_attack g1 h t")
      with hs have "heroStore g2 = heroStore g1" by simp
      then show ?thesis
        unfolding unf t using True a
        by (cases r) (simp_all add: andThen_def g1_def u)
    qed
  }
  {
    assume "\<not> near"
    with ft have "Hero_findTarget g1 u1 l = None" by simp
    then show "Hero_update_base g h deltaTime =
           (Returns (), g1\<lparr> heroStore := (heroStore g1)(h := Unit_move g1 u1 deltaTime (direction u1)) \<rparr>)"
      unfolding unf by simp
  }
qed


lemma Hero_update_via_base: "Hero_update g h deltaTime = Hero_update_base (oathblade_speed g h) h deltaTime"
  by (simp add: Hero_update_def oathblade_speed_def Let_def)

lemma oathblade_speed_frame:
  "lanes (oathblade_speed g h) = lanes g"
  "minionStore (oathblade_speed g h) = minionStore g"
  "daen (oathblade_speed g h) = daen g"
  "tileCount (oathblade_speed g h) = tileCount g"
  "lane (heroStore (oathblade_speed g h) h) = lane (heroStore g h)"
  "position (heroStore (oathblade_speed g h) h) = position (heroStore g h)"
  "attackRange (heroStore (oathblade_speed g h) h) = attackRange (heroStore g h)"
  "attackCooldown (heroStore (oathblade_speed g h) h) = attackCooldown (heroStore g h)"
  "moveSpeed (heroStore (oathblade_speed g h) h) = moveSpeed (heroStore g h)"
  "direction (heroStore (oathblade_speed g h) h) = direction (heroStore g h)"
  by (simp_all add: oathblade_speed_def)

lemma defender_in_range_oathblade:
  "defender_in_range (oathblade_speed g h) h = defender_in_range g h"
  by (simp add: defender_in_range_def oathblade_speed_frame split: option.splits)

lemma Hero_update_no_lane:
  assumes "nth_opt (lanes g) (lane (heroStore g h)) = None"
  shows "position (heroStore (snd (Hero_update_base g h deltaTime)) h) = position (heroStore g h)"
  using assms by (simp add: Hero_update_base_def Let_def)

text \<open>
  C10. One \<^verbatim>\<open>update\<close> of an attacker. With a defender of its lane within its range the
  attacker's position does not change; if moreover its cooldown is still positive
  after this tick's decrement, the tick changes nothing but that cooldown (and an
  Oathblade's attack speed): no defender is touched, no lane, no Daen. Whenever the
  position does change, no defender was in range, no defender and no lane was
  touched (so nothing was attacked), and the new position is the old one advanced by
  \<open>moveSpeed * deltaTime / 1000\<close> in the attacker's direction, clamped to the grid.
\<close>

theorem hero_update_attack_or_move:
  "(defender_in_range g h \<longrightarrow>
      position (heroStore (snd (Hero_update g h deltaTime)) h) = position (heroStore g h)) \<and>
   (defender_in_range g h \<and> 0 < attackCooldown (heroStore g h) \<and>
    0 < attackCooldown (heroStore g h) - deltaTime \<longrightarrow>
      fst (Hero_update g h deltaTime) = Returns () \<and>
      minionStore (snd (Hero_update g h deltaTime)) = minionStore g \<and>
      lanes (snd (Hero_update g h deltaTime)) = lanes g \<and>
      daen (snd (Hero_update g h deltaTime)) = daen g \<and>
      attackCooldown (heroStore (snd (Hero_update g h deltaTime)) h)
        = attackCooldown (heroStore g h) - deltaTime) \<and>
   (position (heroStore (snd (Hero_update g h deltaTime)) h) \<noteq> position (heroStore g h) \<longrightarrow>
      \<not> defender_in_range g h \<and>
      minionStore (snd (Hero_update g h deltaTime)) = minionStore g \<and>
      lanes (snd (Hero_update g h deltaTime)) = lanes g \<and>
      position (heroStore (snd (Hero_update g h deltaTime)) h)
        = max 0 (min (of_int (tileCount g) - 1)
            (position (heroStore g h)
               + moveSpeed (heroStore g h) * deltaTime / 1000 * direction (heroStore g h))))"
proof -
  let ?g = "oathblade_speed g h"
  let ?r = "Hero_update_base ?g h deltaTime"
  note fr = oathblade_speed_frame[of g h]
  have stay: "position (heroStore (snd ?r) h) = position (heroStore g h)" if "defender_in_range g h"
  proof -
    from that[unfolded defender_in_range_oathblade[of g h, symmetric]] obtain l where l: "nth_opt (lanes ?g) (lane (heroStore ?g h)) = Some l"
      and n: "list_ex (\<lambda>m. \<bar>position (heroStore ?g h) - position (minionStore ?g m)\<bar>
                                  \<le> attackRange (heroStore ?g h)) (minions l)"
      unfolding defender_in_range_def
      by (auto simp: fr split: option.splits)
    from Hero_update_base_cases(2)[OF l n] show ?thesis by (simp add: fr)
  qed
  have wait: "fst ?r = Returns () \<and> minionStore (snd ?r) = minionStore g \<and> lanes (snd ?r) = lanes g \<and>
      daen (snd ?r) = daen g \<and>
      attackCooldown (heroStore (snd ?r) h) = attackCooldown (heroStore g h) - deltaTime"
    if "defender_in_range g h" "0 < attackCooldown (heroStore g h)"
       "0 < attackCooldown (heroStore g h) - deltaTime"
  proof -
    from that(1)[unfolded defender_in_range_oathblade[of g h, symmetric]] obtain l where l: "nth_opt (lanes ?g) (lane (heroStore ?g h)) = Some l"
      and n: "list_ex (\<lambda>m. \<bar>position (heroStore ?g h) - position (minionStore ?g m)\<bar>
                                  \<le> attackRange (heroStore ?g h)) (minions l)"
      unfolding defender_in_range_def
      by (auto simp: fr split: option.splits)
    have c: "0 < attackCooldown (if 0 < attackCooldown (heroStore ?g h)
        then (heroStore ?g h)\<lparr> attackCooldown := attackCooldown (heroStore ?g h) - deltaTime \<rparr>
        else heroStore ?g h)"
      using that(2,3) by (simp add: fr)
    from Hero_update_base_cases(1)[OF l n c] that(2) show ?thesis by (simp add: fr)
  qed
  have move: "\<not> defender_in_range g h \<and> minionStore (snd ?r) = minionStore g \<and> lanes (snd ?r) = lanes g \<and>
      position (heroStore (snd ?r) h)
        = max 0 (min (of_int (tileCount g) - 1)
            (position (heroStore g h)
               + moveSpeed (heroStore g h) * deltaTime / 1000 * direction (heroStore g h)))"
    if ch: "position (heroStore (snd ?r) h) \<noteq> position (heroStore g h)"
  proof -
    from ch stay have far: "\<not> defender_in_range g h" by blast
    show ?thesis
    proof (cases "nth_opt (lanes ?g) (lane (heroStore ?g h))")
      case None
      from Hero_update_no_lane[OF None] ch show ?thesis by (simp add: fr)
    next
      case (Some l)
      from far have n: "\<not> list_ex (\<lambda>m. \<bar>position (heroStore ?g h) - position (minionStore ?g m)\<bar>
                                  \<le> attackRange (heroStore ?g h)) (minions l)"
        using Some by (simp add: defender_in_range_def fr)
      from Hero_update_base_cases(3)[OF Some n] far show ?thesis
        by (simp add: fr Unit_move_def Let_def)
    qed
  qed
  show ?thesis
    unfolding Hero_update_via_base using stay wait move by blast
qed

theorem hero_update_attack_or_move_witness:
  "defender_in_range duel_game 1 \<and>
   position (heroStore (snd (Hero_update duel_game 1 16)) 1) = position (heroStore duel_game 1) \<and>
   position (heroStore (snd (Hero_update tie_game 2 1000)) 2) = 57 / 10 \<and>
   position (heroStore tie_game 2) = 6 \<and>
   \<not> defender_in_range tie_game 2 \<and>
   minionStore (snd (Hero_update tie_game 2 1000)) = minionStore tie_game \<and>
   defender_in_range duel_cooling 1 \<and>
   attackCooldown (heroStore duel_cooling 1) = 500 \<and>
   fst (Hero_update duel_cooling 1 16) = Returns () \<and>
   attackCooldown (heroStore (snd (Hero_update duel_cooling 1 16)) 1) = 484 \<and>
   position (heroStore (snd (Hero_update duel_cooling 1 16)) 1) = position (heroStore duel_cooling 1) \<and>
   minionStore (snd (Hero_update duel_cooling 1 16)) = minionStore duel_cooling \<and>
   lanes (snd (Hero_update duel_cooling 1 16)) = lanes duel_cooling"
proof -
  have k: "position (heroStore duel_cooling r) = 5" "attackRange (heroStore duel_cooling r) = 1"
    "position (minionStore duel_cooling 0) = 4" "attackCooldown (heroStore duel_cooling r) = 500"
    "lane (heroStore duel_cooling r) = 0" "lanes duel_cooling = lanes duel_game" for r
    by (simp_all add: duel_cooling_def duel_game_def Hero_new_def Minion_new_def)
  have d: "defender_in_range duel_cooling 1"
    unfolding defender_in_range_def k(5) k(6) duel_game_facts(1)
    by (simp add: duel_game_facts(8) k)
  from hero_update_attack_or_move[of duel_cooling 1 16] d
  have e: "fst (Hero_update duel_cooling 1 16) = Returns ()"
    "attackCooldown (heroStore (snd (Hero_update duel_cooling 1 16)) 1) = 484"
    "position (heroStore (snd (Hero_update duel_cooling 1 16)) 1) = position (heroStore duel_cooling 1)"
    "minionStore (snd (Hero_update duel_cooling 1 16)) = minionStore duel_cooling"
    "lanes (snd (Hero_update duel_cooling 1 16)) = lanes duel_cooling"
    by (simp_all add: k(4))
  have hp: "position (heroStore duel_game r) = 5" "attackRange (heroStore duel_game r) = 1"
    "position (minionStore duel_game 0) = 4" for r
    by (simp_all add: duel_game_def Hero_new_def Minion_new_def)
  have a: "defender_in_range duel_game 1"
    unfolding defender_in_range_def duel_game_facts(2) duel_game_facts(1)
    by (simp add: duel_game_facts(8) hp)
  have b: "position (heroStore (snd (Hero_update duel_game 1 16)) 1) = position (heroStore duel_game 1)"
    using hero_update_attack_or_move[of duel_game 1 16] a by blast
  have c: "position (heroStore tie_game 2) = 6" "moveSpeed (heroStore tie_game 2) = 3 / 10"
    "direction (heroStore tie_game 2) = - 1" "tileCount tie_game = 10" "lane (heroStore tie_game 2) = 0"
    "heroClass (heroStore tie_game 2) = Militiant" "attackCooldown (heroStore tie_game 2) = 0"
    by (simp_all add: tie_game_def Hero_new_def Game_new_def)
  have l: "nth_opt (lanes tie_game) 0 = Some (Lane_new 0 10)"
    using Game_new_nth_lane[of 0] by (simp add: tie_game_def)
  have far: "\<not> defender_in_range tie_game 2"
    by (simp add: defender_in_range_def c l Lane_new_def)
  have os: "oathblade_speed tie_game 2 = tie_game" by (simp add: oathblade_speed_def c)
  have n: "\<not> list_ex (\<lambda>m. \<bar>position (heroStore tie_game 2) - position (minionStore tie_game m)\<bar>
                                  \<le> attackRange (heroStore tie_game 2)) (minions (Lane_new 0 10))"
    by (simp add: Lane_new_def)
  have l': "nth_opt (lanes tie_game) (lane (heroStore tie_game 2)) = Some (Lane_new 0 10)"
    unfolding c by (rule l)
  have p: "position (heroStore (snd (Hero_update tie_game 2 1000)) 2) = 57 / 10"
    unfolding Hero_update_via_base os Hero_update_base_cases(3)[OF l' n]
    by (simp add: c Unit_move_def Let_def)
  then have "position (heroStore (snd (Hero_update tie_game 2 1000)) 2) \<noteq> position (heroStore tie_game 2)"
    using c(1) by simp
  with hero_update_attack_or_move[of tie_game 2 1000]
  have m: "minionStore (snd (Hero_update tie_game 2 1000)) = minionStore tie_game" by blast
  show ?thesis by (intro conjI a b p c(1) far m d k(4) e)
qed

end
